theory Spec2Isabelle
  imports Main
begin

section \<open>Text files as the Titanic notebook reads and writes them\<close>

text \<open>
  The last code cell of the Titanic notebook is the only place of the notebooks where
  text is processed by statements of the repository itself:
  \<^verbatim>\<open>
  with open("test.csv", "r") as f:
      f.readline()
      id_list = [line.strip().split(",")[0] for line in f]
  with open("submission.csv", "w") as f:
      f.write("PassengerId,Survived\n")
      for test_id, c in zip(id_list, classes.ravel()):
          f.write(f"{test_id},{c.item()}\n")
  \<close>
  A text is a \<open>string\<close>; every \<open>char\<close> stands for one code point below 256.
  The file system is a map from paths to the text of each file. A file opened for
  reading is the text that is still unread; a file opened for writing is the list of
  the strings its \<open>write\<close> calls were given, in order. Opening a file for writing
  creates or empties it and is taken to succeed.
\<close>

datatype py_error =
  FileNotFoundError | IndexError | KeyError | AssertionError | NotImplementedError

type_synonym filesystem = "string \<rightharpoonup> string"

definition LF :: char where
  "LF = CHR 0x0A"

definition CR :: char where
  "CR = CHR 0x0D"

definition COMMA :: char where
  "COMMA = CHR '',''"

text \<open>
  Text mode with the default \<open>newline=None\<close>: on reading, \<open>\r\n\<close> and a lone
  \<open>\r\<close> both arrive as \<open>\n\<close>.
\<close>

fun universal_newlines :: "string \<Rightarrow> string" where
  "universal_newlines [] = []"
| "universal_newlines [c] = (if c = CR then [LF] else [c])"
| "universal_newlines (c # d # cs) =
     (if c = CR then
        (if d = LF then LF # universal_newlines cs else LF # universal_newlines (d # cs))
      else c # universal_newlines (d # cs))"

definition open_r :: "filesystem \<Rightarrow> string \<Rightarrow> py_error + string" where
  "open_r fs path =
     (case fs path of
        None \<Rightarrow> Inl FileNotFoundError
      | Some content \<Rightarrow> Inr (universal_newlines content))"

text \<open>
  \<open>f.readline()\<close>: the text up to and including the next \<open>\n\<close> (all of it when
  there is none), and the file advanced past it. At the end of the file it returns the
  empty string.
\<close>

fun readline :: "string \<Rightarrow> string \<times> string" where
  "readline [] = ([], [])"
| "readline (c # cs) =
     (if c = LF then ([c], cs)
      else (case readline cs of (l, r) \<Rightarrow> (c # l, r)))"

lemma readline_shorter: "length (snd (readline s)) \<le> length s"
  by (induction s) (auto split: prod.splits)

lemma readline_less: "s \<noteq> [] \<Longrightarrow> length (snd (readline s)) < length s"
  using readline_shorter [of "tl s"] by (cases s) (auto split: prod.splits)

text \<open>\<open>for line in f\<close>: \<open>readline\<close> until the file is exhausted.\<close>

function iter_lines :: "string \<Rightarrow> string list" where
  "iter_lines s =
     (if s = [] then []
      else (case readline s of (l, r) \<Rightarrow> l # iter_lines r))"
  by pat_completeness auto
termination
proof (relation "measure length", goal_cases)
  case 1
  show ?case by simp
next
  case (2 s l r)
  then have "r = snd (readline s)" by (metis snd_conv)
  then show ?case using readline_less [of s] 2 by simp
qed

declare iter_lines.simps [simp del]

text \<open>
  \<open>str.isspace\<close> on the code points below 256: tab, line feed, vertical tab, form
  feed, carriage return, the four separators 0x1C to 0x1F, space, NEL and the
  no-break space.
\<close>

definition isspace :: "char \<Rightarrow> bool" where
  "isspace c = ((of_char c :: nat) \<in> {9, 10, 11, 12, 13, 28, 29, 30, 31, 32, 133, 160})"

definition py_strip :: "string \<Rightarrow> string" where
  "py_strip s = dropWhile isspace (rev (dropWhile isspace (rev s)))"

text \<open>\<open>s.split(",")\<close>: the fields between the commas; never an empty list.\<close>

fun py_split_comma :: "string \<Rightarrow> string list" where
  "py_split_comma [] = [[]]"
| "py_split_comma (c # cs) =
     (if c = COMMA then [] # py_split_comma cs
      else (case py_split_comma cs of
              [] \<Rightarrow> [[c]]
            | fld # flds \<Rightarrow> (c # fld) # flds))"

text \<open>\<open>xs[0]\<close> raises \<open>IndexError\<close> on an empty list.\<close>

definition index0 :: "'a list \<Rightarrow> py_error + 'a" where
  "index0 xs = (case xs of [] \<Rightarrow> Inl IndexError | x # _ \<Rightarrow> Inr x)"

text \<open>One element of the comprehension: \<open>line.strip().split(",")[0]\<close>.\<close>

definition test_id_of :: "string \<Rightarrow> py_error + string" where
  "test_id_of line = index0 (py_split_comma (py_strip line))"

text \<open>The comprehension over the lines; the first element that raises ends it.\<close>

fun id_list_of :: "string list \<Rightarrow> py_error + string list" where
  "id_list_of [] = Inr []"
| "id_list_of (line # ls) =
     (case test_id_of line of
        Inl e \<Rightarrow> Inl e
      | Inr x \<Rightarrow> (case id_list_of ls of Inl e \<Rightarrow> Inl e | Inr xs \<Rightarrow> Inr (x # xs)))"

text \<open>
  \<open>classes\<close> is the array the external \<open>predict\<close> returned for
  \<open>return_classes=True\<close>: integer class indices, one row per sample (the notebook
  prints \<open>[[0] [0] [0]]\<close>). \<open>ravel\<close> flattens it row by row, \<open>c.item()\<close> is the
  Python integer, and the f-string formats it as \<open>str\<close> does.
\<close>

definition ravel :: "'a list list \<Rightarrow> 'a list" where
  "ravel a = concat a"

definition digit_char :: "nat \<Rightarrow> char" where
  "digit_char d = char_of (48 + d)"

fun str_nat :: "nat \<Rightarrow> string" where
  "str_nat n = (if n < 10 then [digit_char n] else str_nat (n div 10) @ [digit_char (n mod 10)])"

declare str_nat.simps [simp del]

definition str_int :: "int \<Rightarrow> string" where
  "str_int i = (if i < 0 then CHR ''-'' # str_nat (nat (- i)) else str_nat (nat i))"

text \<open>The row the loop formats, without its line end, and the loop over the pairs.\<close>

definition submission_row :: "string \<Rightarrow> int \<Rightarrow> string" where
  "submission_row test_id c = test_id @ [COMMA] @ str_int c"

fun write_rows :: "(string \<times> int) list \<Rightarrow> string list \<Rightarrow> string list" where
  "write_rows [] f = f"
| "write_rows ((test_id, c) # ps) f = write_rows ps (f @ [submission_row test_id c @ [LF]])"

definition header :: string where
  "header = ''PassengerId,Survived''"

text \<open>The write calls of the second \<open>with\<close> block, in order.\<close>

definition submission_writes :: "string list \<Rightarrow> int list list \<Rightarrow> string list" where
  "submission_writes id_list classes =
     write_rows (zip id_list (ravel classes)) ([] @ [header @ [LF]])"

text \<open>
  The whole cell: it fails where \<open>open\<close> or the index fails, and otherwise leaves
  the text written to \<open>submission.csv\<close> in the file system.
\<close>

definition cell9 :: "filesystem \<Rightarrow> int list list \<Rightarrow> py_error + filesystem" where
  "cell9 fs classes =
     (case open_r fs ''test.csv'' of
        Inl e \<Rightarrow> Inl e
      | Inr f \<Rightarrow>
          (case id_list_of (iter_lines (snd (readline f))) of
             Inl e \<Rightarrow> Inl e
           | Inr id_list \<Rightarrow>
               Inr (fs(''submission.csv'' \<mapsto> concat (submission_writes id_list classes)))))"

text \<open>The lines of a file as text mode reads them, line ends kept.\<close>

definition file_lines :: "string \<Rightarrow> string list" where
  "file_lines content = iter_lines (universal_newlines content)"

text \<open>A line without its line end.\<close>

definition chomp :: "string \<Rightarrow> string" where
  "chomp l = (if l \<noteq> [] \<and> last l = LF then butlast l else l)"

text \<open>
  The first rows of \<open>test.csv\<close> as the notebook quotes them (\<open>CHR 0x22\<close> is the
  double quote), and predicted classes for the three passengers.
\<close>

definition sample_test_csv :: string where
  "sample_test_csv =
     ''PassengerId,Pclass,Name,Sex,Age,SibSp,Parch,Ticket,Fare,Cabin,Embarked'' @ [LF] @
     ''892,3,'' @ [CHR 0x22] @ ''Kelly, Mr. James'' @ [CHR 0x22] @
       '',male,34.5,0,0,330911,7.8292,,Q'' @ [LF] @
     ''893,3,'' @ [CHR 0x22] @ ''Wilkes, Mrs. James (Ellen Needs)'' @ [CHR 0x22] @
       '',female,47,1,0,363272,7,,S'' @ [LF] @
     ''894,2,'' @ [CHR 0x22] @ ''Myles, Mr. Thomas Francis'' @ [CHR 0x22] @
       '',male,62,0,0,240276,9.6875,,Q'' @ [LF]"

definition sample_fs :: filesystem where
  "sample_fs = [''test.csv'' \<mapsto> sample_test_csv]"

definition sample_classes :: "int list list" where
  "sample_classes = [[0], [1], [0]]"

text \<open>A prediction array that is one row short of the sample's passengers.\<close>

definition short_classes :: "int list list" where
  "short_classes = [[0], [1]]"

text \<open>
  The id list the first \<open>with\<close> block computes from the text of \<open>test.csv\<close>,
  and the rows the second one formats, in closed form (shown equal to the cell below).
\<close>

definition ids_of :: "string \<Rightarrow> string list" where
  "ids_of t = map (\<lambda>line. takeWhile (\<lambda>c. c \<noteq> COMMA) (py_strip line)) (drop 1 (file_lines t))"

definition rows_of :: "string \<Rightarrow> int list list \<Rightarrow> string list" where
  "rows_of t classes = map (\<lambda>(test_id, c). submission_row test_id c) (zip (ids_of t) (ravel classes))"

section \<open>The notebooks as sequences of calls into the external library\<close>

text \<open>
  Everything else the notebooks do is a call into a library whose code is not part of
  the repository (\<open>cflearn\<close>, \<open>numpy\<close>, \<open>pickle\<close>). The value such a call returns
  is the symbolic value \<open>Ret f args\<close>, and a cell is the list of the calls it makes,
  in program order. Calls with a meaning of their own here (\<open>dict\<close>, \<open>zip\<close>, the
  string methods, \<open>ravel\<close> and \<open>item\<close> of the class array, \<open>os.path.join\<close>) are HOL
  functions and are not listed; \<open>open\<close>, \<open>print\<close> and the methods of a file object
  are. A keyword argument \<open>k=v\<close> and a dictionary entry are both \<open>Kw k v\<close>.
\<close>

datatype pyval =
    PNone
  | PStr string
  | PInt int
  | PFloat string
  | PBool bool
  | PList "pyval list"
  | PDict "pyval list"
  | Kw string pyval
  | Lib string
  | Builtin string
  | Attr pyval string
  | Item pyval pyval
  | Upto pyval int
  | SetItem pyval string pyval
  | Ret pyval "pyval list"

datatype call = Call (callee: pyval) (args: "pyval list")

definition ext :: "pyval \<Rightarrow> pyval list \<Rightarrow> call list \<Rightarrow> pyval \<times> call list" where
  "ext f as log = (Ret f as, log @ [Call f as])"

subsection \<open>The Titanic notebook, cell by cell\<close>

text \<open>
  Each cell takes the variables it reads and the log, and returns the variables it
  assigns and the log. Cell 1: \<open>seed_everything(123)\<close>.
\<close>

definition titanic_cell1 :: "call list \<Rightarrow> call list" where
  "titanic_cell1 log =
     (let (_, log) = ext (Lib ''cflearn.misc.toolkit.seed_everything'') [PInt 123] log
      in log)"

text \<open>\<open>processor_config = cflearn.MLBundledProcessorConfig(label_names=["Survived"])\<close>\<close>

definition titanic_cell2 :: "call list \<Rightarrow> pyval \<times> call list" where
  "titanic_cell2 log =
     ext (Lib ''cflearn.MLBundledProcessorConfig'')
       [Kw ''label_names'' (PList [PStr ''Survived''])] log"

text \<open>\<open>data = cflearn.MLData.init(processor_config=processor_config).fit("train.csv")\<close>\<close>

definition titanic_cell3 :: "pyval \<Rightarrow> call list \<Rightarrow> pyval \<times> call list" where
  "titanic_cell3 processor_config log =
     (let (init, log) = ext (Lib ''cflearn.MLData.init'')
                          [Kw ''processor_config'' processor_config] log
      in ext (Attr init ''fit'') [PStr ''train.csv''] log)"

text \<open>
  \<open>config = cflearn.MLConfig(model_name="wnd", model_config=dict(...), ...)\<close>: the
  arguments are evaluated first, left to right, so the encoder settings are built
  before \<open>MLConfig\<close> is called.
\<close>

definition titanic_cell4 :: "pyval \<Rightarrow> call list \<Rightarrow> pyval \<times> call list" where
  "titanic_cell4 data log =
     (let model_config = PDict [Kw ''input_dim'' (Attr data ''num_features''),
                                Kw ''output_dim'' (PInt 1)];
          optimizer_config = PDict [Kw ''nesterov'' (PBool True),
                                    Kw ''momentum'' (PFloat ''0.9'')];
          (settings, log) = ext (Lib ''cflearn.MLGlobalEncoderSettings'')
                              [Kw ''embedding_dim'' (PInt 8)] log
      in ext (Lib ''cflearn.MLConfig'')
           [Kw ''model_name'' (PStr ''wnd''),
            Kw ''model_config'' model_config,
            Kw ''loss_name'' (PStr ''bce''),
            Kw ''metric_names'' (PList [PStr ''acc'', PStr ''auc'']),
            Kw ''lr'' (PFloat ''0.1''),
            Kw ''optimizer_name'' (PStr ''sgd''),
            Kw ''optimizer_config'' optimizer_config,
            Kw ''global_encoder_settings'' settings] log)"

text \<open>\<open>m = cflearn.api.fit_ml(data, config=config)\<close>\<close>

definition titanic_cell5 :: "pyval \<Rightarrow> pyval \<Rightarrow> call list \<Rightarrow> pyval \<times> call list" where
  "titanic_cell5 data config log =
     ext (Lib ''cflearn.api.fit_ml'') [data, Kw ''config'' config] log"

text \<open>\<open>loader = m.data.build_loader("train.csv")\<close>, \<open>m.evaluate(loader)\<close>\<close>

definition titanic_cell6 :: "pyval \<Rightarrow> call list \<Rightarrow> pyval \<times> call list" where
  "titanic_cell6 m log =
     (let (loader, log) = ext (Attr (Attr m ''data'') ''build_loader'') [PStr ''train.csv''] log;
          (_, log) = ext (Attr m ''evaluate'') [loader] log
      in (loader, log))"

text \<open>
  \<open>loader = m.data.build_loader("test.csv")\<close>,
  \<open>predictions = m.predict(loader)[cflearn.PREDICTIONS_KEY]\<close>
\<close>

definition titanic_cell7 :: "pyval \<Rightarrow> call list \<Rightarrow> (pyval \<times> pyval) \<times> call list" where
  "titanic_cell7 m log =
     (let (loader, log) = ext (Attr (Attr m ''data'') ''build_loader'') [PStr ''test.csv''] log;
          (out, log) = ext (Attr m ''predict'') [loader] log;
          predictions = Item out (Lib ''cflearn.PREDICTIONS_KEY'')
      in ((loader, predictions), log))"

text \<open>
  The two further predictions and the two prints of cell 8. The cell returns
  \<open>probabilities\<close> and \<open>classes\<close>.
\<close>

definition titanic_cell8 :: "pyval \<Rightarrow> pyval \<Rightarrow> call list \<Rightarrow> (pyval \<times> pyval) \<times> call list" where
  "titanic_cell8 m loader log =
     (let (out, log) = ext (Attr m ''predict'') [loader, Kw ''return_probabilities'' (PBool True)] log;
          probabilities = Item out (Lib ''cflearn.PREDICTIONS_KEY'');
          (out, log) = ext (Attr m ''predict'') [loader, Kw ''return_classes'' (PBool True)] log;
          classes = Item out (Lib ''cflearn.PREDICTIONS_KEY'');
          (_, log) = ext (Builtin ''print'') [Upto probabilities 3] log;
          (_, log) = ext (Builtin ''print'') [Upto classes 3] log
      in ((probabilities, classes), log))"

text \<open>
  The calls of cell 9, the submission-writing cell, as far as the cell gets: the two
  \<open>open\<close> calls, \<open>f.readline()\<close> and one \<open>f.write\<close> per string written.
\<close>

definition open_call :: "string \<Rightarrow> string \<Rightarrow> call" where
  "open_call path mode = Call (Builtin ''open'') [PStr path, PStr mode]"

definition file_obj :: "string \<Rightarrow> string \<Rightarrow> pyval" where
  "file_obj path mode = Ret (Builtin ''open'') [PStr path, PStr mode]"

definition write_call :: "string \<Rightarrow> string \<Rightarrow> call" where
  "write_call path chunk = Call (Attr (file_obj path ''w'') ''write'') [PStr chunk]"

definition cell9_calls :: "filesystem \<Rightarrow> int list list \<Rightarrow> call list" where
  "cell9_calls fs classes =
     (case open_r fs ''test.csv'' of
        Inl e \<Rightarrow> [open_call ''test.csv'' ''r'']
      | Inr f \<Rightarrow>
          [open_call ''test.csv'' ''r'',
           Call (Attr (file_obj ''test.csv'' ''r'') ''readline'') []] @
          (case id_list_of (iter_lines (snd (readline f))) of
             Inl e \<Rightarrow> []
           | Inr id_list \<Rightarrow>
               open_call ''submission.csv'' ''w'' #
               map (write_call ''submission.csv'') (submission_writes id_list classes)))"

text \<open>
  Cells 1 to 8 depend on no input: the calls they make, in the order of the cells'
  execution counts.
\<close>

definition titanic_cells_1_to_8 :: "call list" where
  "titanic_cells_1_to_8 =
     (let log = titanic_cell1 [];
          (processor_config, log) = titanic_cell2 log;
          (data, log) = titanic_cell3 processor_config log;
          (config, log) = titanic_cell4 data log;
          (m, log) = titanic_cell5 data config log;
          (loader, log) = titanic_cell6 m log;
          ((loader, predictions), log) = titanic_cell7 m log;
          ((probabilities, classes), log) = titanic_cell8 m loader log
      in log)"

subsection \<open>Running the calls\<close>

text \<open>
  What a library does when it is called is not in the repository, so it is a parameter
  of every run: given the calls made so far, the call and the files, the library either
  raises an exception, named by a string, or returns and leaves the files as it likes
  (\<open>fit_ml\<close> writes checkpoints, \<open>run_tasks\<close> whole workspaces). The state of a run
  is the files and the log of the calls made so far.
\<close>

datatype outcome = Raises string | Returns filesystem

type_synonym library = "call list \<Rightarrow> call \<Rightarrow> filesystem \<Rightarrow> outcome"

record run =
  run_files :: filesystem
  run_log :: "call list"

text \<open>
  A run that fails keeps where the exception came from: a \<open>raise\<close> or \<open>assert\<close>
  statement of the repository, a builtin operation (\<open>open\<close>, indexing, a dictionary
  lookup), or the inside of a library call. No cell and no script has a \<open>try\<close>
  statement, so the first exception ends the run.
\<close>

datatype failure =
    Raised_by_statement py_error
  | Raised_by_builtin py_error
  | Raised_by_library call string

definition lib_call :: "library \<Rightarrow> call \<Rightarrow> run \<Rightarrow> failure + run" where
  "lib_call lib c w =
     (case lib (run_log w) c (run_files w) of
        Raises x \<Rightarrow> Inl (Raised_by_library c x)
      | Returns fs' \<Rightarrow> Inr \<lparr>run_files = fs', run_log = run_log w @ [c]\<rparr>)"

fun run_calls :: "library \<Rightarrow> call list \<Rightarrow> run \<Rightarrow> failure + run" where
  "run_calls lib [] w = Inr w"
| "run_calls lib (c # cs) w =
     (case lib_call lib c w of
        Inl e \<Rightarrow> Inl e
      | Inr w' \<Rightarrow> run_calls lib cs w')"

text \<open>A call whose value the code goes on to use.\<close>

definition ext_run :: "library \<Rightarrow> pyval \<Rightarrow> pyval list \<Rightarrow> run \<Rightarrow> failure + (pyval \<times> run)" where
  "ext_run lib f as w =
     (case lib_call lib (Call f as) w of
        Inl e \<Rightarrow> Inl e
      | Inr w' \<Rightarrow> Inr (Ret f as, w'))"

text \<open>
  The Titanic notebook, from the library, the files present at the start and the class
  array that the third \<open>predict\<close> call returned. Cell 9 works on the files as the
  library calls of cells 1 to 8 left them.
\<close>

definition titanic :: "library \<Rightarrow> filesystem \<Rightarrow> int list list \<Rightarrow> failure + run" where
  "titanic lib fs predicted =
     (case run_calls lib titanic_cells_1_to_8 \<lparr>run_files = fs, run_log = []\<rparr> of
        Inl e \<Rightarrow> Inl e
      | Inr w \<Rightarrow>
          (case cell9 (run_files w) predicted of
             Inl e \<Rightarrow> Inl (Raised_by_builtin e)
           | Inr fs' \<Rightarrow>
               Inr \<lparr>run_files = fs',
                    run_log = run_log w @ cell9_calls (run_files w) predicted\<rparr>))"

text \<open>The name a logged call is made under: a method is written with a leading dot.\<close>

fun callee_name :: "call \<Rightarrow> string" where
  "callee_name (Call (Lib n) as) = n"
| "callee_name (Call (Builtin n) as) = n"
| "callee_name (Call (Attr obj n) as) = ''.'' @ n"
| "callee_name (Call f as) = ''?''"

subsection \<open>The Iris notebook, cell by cell\<close>

definition iris_cell1 :: "call list \<Rightarrow> call list" where
  "iris_cell1 log =
     (let (_, log) = ext (Lib ''cflearn.misc.toolkit.seed_everything'') [PInt 123] log
      in log)"

text \<open>
  Cell 3 builds the processor config, fits the data on \<open>iris.data\<close>, builds the
  config and fits the model. It returns \<open>data\<close>, \<open>config\<close> and \<open>m\<close>.
\<close>

definition iris_cell3 :: "call list \<Rightarrow> (pyval \<times> pyval \<times> pyval) \<times> call list" where
  "iris_cell3 log =
     (let (processor_config, log) =
            ext (Lib ''cflearn.MLBundledProcessorConfig'')
              [Kw ''has_header'' (PBool False), Kw ''num_split'' (PInt 25)] log;
          (init, log) = ext (Lib ''cflearn.MLData.init'')
                          [Kw ''processor_config'' processor_config] log;
          (data, log) = ext (Attr init ''fit'') [PStr ''iris.data''] log;
          (config, log) =
            ext (Lib ''cflearn.MLConfig'')
              [Kw ''model_name'' (PStr ''fcnn''),
               Kw ''model_config''
                 (PDict [Kw ''input_dim'' (Attr data ''num_features''),
                         Kw ''output_dim'' (Attr data ''num_labels'')]),
               Kw ''loss_name'' (PStr ''focal''),
               Kw ''metric_names'' (PList [PStr ''acc'', PStr ''auc''])] log;
          (m, log) = ext (Lib ''cflearn.api.fit_ml'') [data, Kw ''config'' config] log
      in ((data, config, m), log))"

text \<open>Cell 5 prints the mean and the standard deviation of the training inputs.\<close>

definition iris_cell5 :: "pyval \<Rightarrow> call list \<Rightarrow> pyval \<times> call list" where
  "iris_cell5 m log =
     (let data = Attr m ''data'';
          x_train = Attr (Attr data ''train_dataset'') ''x'';
          (mean, log) = ext (Attr x_train ''mean'') [PInt 0] log;
          (_, log) = ext (Builtin ''print'') [PStr ''> mean'', mean] log;
          (std, log) = ext (Attr x_train ''std'') [PInt 0] log;
          (_, log) = ext (Builtin ''print'') [PStr ''> std '', std] log
      in (data, log))"

text \<open>Cell 7 does the same for the training and validation inputs stacked.\<close>

definition iris_cell7 :: "pyval \<Rightarrow> call list \<Rightarrow> pyval \<times> call list" where
  "iris_cell7 m log =
     (let data = Attr m ''data'';
          x_train = Attr (Attr data ''train_dataset'') ''x'';
          x_valid = Attr (Attr data ''valid_dataset'') ''x'';
          (stacked, log) = ext (Lib ''np.vstack'') [PList [x_train, x_valid]] log;
          (mean, log) = ext (Attr stacked ''mean'') [PInt 0] log;
          (_, log) = ext (Builtin ''print'') [PStr ''> mean'', mean] log;
          (std, log) = ext (Attr stacked ''std'') [PInt 0] log;
          (_, log) = ext (Builtin ''print'') [PStr ''> std '', std] log
      in (data, log))"

text \<open>Cell 9: a loader on \<open>iris.data\<close>, a prediction and an evaluation.\<close>

definition iris_cell9 :: "pyval \<Rightarrow> pyval \<Rightarrow> call list \<Rightarrow> pyval \<times> call list" where
  "iris_cell9 data m log =
     (let (loader, log) = ext (Attr data ''build_loader'') [PStr ''iris.data''] log;
          (predictions, log) = ext (Attr m ''predict'') [loader] log;
          (_, log) = ext (Lib ''cflearn.api.evaluate'') [loader, PDict [Kw ''m'' m]] log
      in (loader, log))"

text \<open>Cells 11, 13 and 15: the repeated trainings.\<close>

definition iris_cell11 :: "pyval \<Rightarrow> pyval \<Rightarrow> pyval \<Rightarrow> call list \<Rightarrow> call list" where
  "iris_cell11 data m loader log =
     (let (results, log) = ext (Lib ''cflearn.api.repeat_ml'')
                             [data, Attr m ''config'', Kw ''num_repeat'' (PInt 3)] log;
          (pipelines, log) = ext (Lib ''cflearn.api.load_pipelines'') [results] log;
          (_, log) = ext (Lib ''cflearn.api.evaluate'') [loader, pipelines] log
      in log)"

definition iris_cell13 :: "pyval \<Rightarrow> pyval \<Rightarrow> pyval \<Rightarrow> call list \<Rightarrow> pyval \<times> call list" where
  "iris_cell13 data m loader log =
     (let models = PList [PStr ''linear'', PStr ''fcnn''];
          (results, log) = ext (Lib ''cflearn.api.repeat_ml'')
                             [data, Attr m ''config'', Kw ''models'' models,
                              Kw ''num_repeat'' (PInt 3)] log;
          (pipelines, log) = ext (Lib ''cflearn.api.load_pipelines'') [results] log;
          (_, log) = ext (Lib ''cflearn.api.evaluate'') [loader, pipelines] log
      in (models, log))"

definition iris_cell15 :: "pyval \<Rightarrow> pyval \<Rightarrow> pyval \<Rightarrow> call list \<Rightarrow> call list" where
  "iris_cell15 data m models log =
     (let (results, log) = ext (Lib ''cflearn.api.repeat_ml'')
                             [data, Attr m ''config'', Kw ''models'' models,
                              Kw ''num_repeat'' (PInt 10), Kw ''num_jobs'' (PInt 2)] log
      in log)"

text \<open>
  Cell 17 sets the tasks of the experiment up; \<open>**common_kwargs\<close> passes the two
  entries of the dictionary as keyword arguments. Cell 19 runs the tasks.
\<close>

definition iris_cell17 :: "pyval \<Rightarrow> pyval \<Rightarrow> call list \<Rightarrow> pyval \<times> call list" where
  "iris_cell17 data config log =
     (let (experiment, log) = ext (Lib ''cflearn.dist.ml.Experiment'') [] log;
          (data_folder, log) = ext (Attr experiment ''dump_data'') [data] log;
          (_, log) = ext (Attr experiment ''add_task'')
                       [Kw ''model'' (PStr ''fcnn''), Kw ''config'' config,
                        Kw ''data_folder'' data_folder] log;
          (_, log) = ext (Attr experiment ''add_task'')
                       [Kw ''model'' (PStr ''linear''), Kw ''config'' config,
                        Kw ''data_folder'' data_folder] log;
          run_command = PStr ''python run_sklearn.py'';
          common_kwargs = [Kw ''run_command'' run_command, Kw ''data_folder'' data_folder];
          (_, log) = ext (Attr experiment ''add_task'')
                       (Kw ''model'' (PStr ''decision_tree'') # common_kwargs) log;
          (_, log) = ext (Attr experiment ''add_task'')
                       (Kw ''model'' (PStr ''random_forest'') # common_kwargs) log
      in (experiment, log))"

definition iris_cell19 :: "pyval \<Rightarrow> call list \<Rightarrow> pyval \<times> call list" where
  "iris_cell19 experiment log = ext (Attr experiment ''run_tasks'') [] log"

text \<open>
  \<open>os.path.join(a, b)\<close> as \<open>posixpath\<close> computes it for two components: an absolute
  \<open>b\<close> replaces \<open>a\<close>; otherwise a slash is put between them unless \<open>a\<close> is empty or
  ends with one.
\<close>

definition os_path_join :: "string \<Rightarrow> string \<Rightarrow> string" where
  "os_path_join a b =
     (if b \<noteq> [] \<and> hd b = CHR ''/'' then b
      else if a = [] \<or> last a = CHR ''/'' then a @ b
      else a @ ''/'' @ b)"

text \<open>
  The loop of cell 21 over \<open>zip(results.workspaces, results.workspace_keys)\<close>. The
  two lists are what the external \<open>run_tasks\<close> returned; a workspace key is a tuple of
  strings whose first component is the model. \<open>open\<close> fails on a missing file, and
  \<open>pickle.load\<close> and the two constructors are library calls like any other.
  \<^verbatim>\<open>
  for workspace, workspace_key in zip(results.workspaces, results.workspace_keys):
      model = workspace_key[0]
      if model in ["decision_tree", "random_forest"]:
          model_file = os.path.join(workspace, "sk_model.pkl")
          with open(model_file, "rb") as f:
              predictor = cflearn.SKLearnClassifier(pickle.load(f))
              pipelines[model] = cflearn.GeneralEvaluationPipeline(config, predictor)
  \<close>
\<close>

fun cell21_loop ::
  "library \<Rightarrow> pyval \<Rightarrow> (string \<times> string list) list \<Rightarrow> pyval \<Rightarrow> run \<Rightarrow>
   failure + (pyval \<times> run)" where
  "cell21_loop lib config [] pipelines w = Inr (pipelines, w)"
| "cell21_loop lib config ((workspace, workspace_key) # rest) pipelines w =
     (case index0 workspace_key of
        Inl e \<Rightarrow> Inl (Raised_by_builtin e)
      | Inr model \<Rightarrow>
          if model \<in> set [''decision_tree'', ''random_forest''] then
            (let model_file = os_path_join workspace ''sk_model.pkl'' in
             case run_files w model_file of
               None \<Rightarrow> Inl (Raised_by_builtin FileNotFoundError)
             | Some content \<Rightarrow>
                 (case ext_run lib (Lib ''pickle.load'') [file_obj model_file ''rb'']
                         (w\<lparr>run_log := run_log w @ [open_call model_file ''rb'']\<rparr>) of
                    Inl e \<Rightarrow> Inl e
                  | Inr (loaded, w) \<Rightarrow>
                      (case ext_run lib (Lib ''cflearn.SKLearnClassifier'') [loaded] w of
                         Inl e \<Rightarrow> Inl e
                       | Inr (predictor, w) \<Rightarrow>
                           (case ext_run lib (Lib ''cflearn.GeneralEvaluationPipeline'')
                                   [config, predictor] w of
                              Inl e \<Rightarrow> Inl e
                            | Inr (pipeline, w) \<Rightarrow>
                                cell21_loop lib config rest
                                  (SetItem pipelines model pipeline) w))))
          else cell21_loop lib config rest pipelines w)"

definition iris_cell21 ::
  "library \<Rightarrow> string list \<Rightarrow> string list list \<Rightarrow> pyval \<Rightarrow> pyval \<Rightarrow> run \<Rightarrow>
   failure + (pyval \<times> run)" where
  "iris_cell21 lib workspaces workspace_keys results config w =
     (case ext_run lib (Lib ''cflearn.api.load_pipelines'') [results] w of
        Inl e \<Rightarrow> Inl e
      | Inr (pipelines, w) \<Rightarrow>
          cell21_loop lib config (zip workspaces workspace_keys) pipelines w)"

definition iris_cell23 :: "pyval \<Rightarrow> pyval \<Rightarrow> call list \<Rightarrow> call list" where
  "iris_cell23 loader pipelines log =
     (let (_, log) = ext (Lib ''cflearn.api.evaluate'') [loader, pipelines] log
      in log)"

text \<open>
  Cells 1 to 19 depend on no input; they leave \<open>loader\<close>, \<open>config\<close> and
  \<open>results\<close> for the cells that follow.
\<close>

definition iris_cells_1_to_19 :: "(pyval \<times> pyval \<times> pyval) \<times> call list" where
  "iris_cells_1_to_19 =
     (let log = iris_cell1 [];
          ((data, config, m), log) = iris_cell3 log;
          (data, log) = iris_cell5 m log;
          (data, log) = iris_cell7 m log;
          (loader, log) = iris_cell9 data m log;
          log = iris_cell11 data m loader log;
          (models, log) = iris_cell13 data m loader log;
          log = iris_cell15 data m models log;
          (experiment, log) = iris_cell17 data config log;
          (results, log) = iris_cell19 experiment log
      in ((loader, config, results), log))"

text \<open>
  The Iris notebook, from the library, the files present at the start and the
  workspaces and workspace keys of the results that \<open>run_tasks\<close> returned. Cell 21
  works on the files as the library calls before it left them.
\<close>

definition iris :: "library \<Rightarrow> filesystem \<Rightarrow> string list \<Rightarrow> string list list \<Rightarrow> failure + run" where
  "iris lib fs workspaces workspace_keys =
     (let ((loader, config, results), log) = iris_cells_1_to_19
      in case run_calls lib log \<lparr>run_files = fs, run_log = []\<rparr> of
           Inl e \<Rightarrow> Inl e
         | Inr w \<Rightarrow>
             (case iris_cell21 lib workspaces workspace_keys results config w of
                Inl e \<Rightarrow> Inl e
              | Inr (pipelines, w) \<Rightarrow> run_calls lib (iris_cell23 loader pipelines []) w))"

subsection \<open>Reading the log\<close>

text \<open>Every occurrence of \<open>a\<close> lies before the first occurrence of \<open>b\<close>.\<close>

definition all_before :: "'a \<Rightarrow> 'a \<Rightarrow> 'a list \<Rightarrow> bool" where
  "all_before a b xs = (a \<notin> set (dropWhile (\<lambda>x. x \<noteq> b) xs))"

text \<open>
  The path a call reads: \<open>open(p, "r")\<close> and \<open>open(p, "rb")\<close>, and the path handed
  to the library's \<open>fit\<close> and \<open>build_loader\<close>. The path a call opens for writing.
\<close>

definition paths_read_by :: "call \<Rightarrow> string list" where
  "paths_read_by c =
     (case args c of
        [PStr p] \<Rightarrow>
          (if callee_name c = ''.fit'' \<or> callee_name c = ''.build_loader'' then [p] else [])
      | [PStr p, PStr mode] \<Rightarrow>
          (if callee_name c = ''open'' \<and> (mode = ''r'' \<or> mode = ''rb'') then [p] else [])
      | _ \<Rightarrow> [])"

definition paths_written_by :: "call \<Rightarrow> string list" where
  "paths_written_by c =
     (case args c of
        [PStr p, PStr mode] \<Rightarrow>
          (if callee_name c = ''open'' \<and> (mode = ''w'' \<or> mode = ''wb'') then [p] else [])
      | _ \<Rightarrow> [])"

definition paths_read :: "call list \<Rightarrow> string set" where
  "paths_read log = set (concat (map paths_read_by log))"

definition paths_written :: "call list \<Rightarrow> string set" where
  "paths_written log = set (concat (map paths_written_by log))"

text \<open>
  Where a value comes from. A value is from \<open>cflearn\<close> when it is a name of that
  library, or an attribute, an item, a slice or the result of a call of such a value.
  A value is plain when it is a string, a number, a flag, a value from \<open>cflearn\<close>, or
  a list, a dictionary or a keyword argument of plain values.
\<close>

fun from_cflearn :: "pyval \<Rightarrow> bool" where
  "from_cflearn (Lib n) = (take 8 n = ''cflearn.'')"
| "from_cflearn (Attr v a) = from_cflearn v"
| "from_cflearn (Item v k) = from_cflearn v"
| "from_cflearn (Upto v n) = from_cflearn v"
| "from_cflearn (SetItem v k x) = from_cflearn v"
| "from_cflearn (Ret f as) = from_cflearn f"
| "from_cflearn v = False"




text \<open>The workspace keys whose model the loop of cell 21 loads from a pickle.\<close>

definition sklearn_key :: "string list \<Rightarrow> bool" where
  "sklearn_key workspace_key =
     (case workspace_key of
        [] \<Rightarrow> False
      | model # _ \<Rightarrow> model \<in> set [''decision_tree'', ''random_forest''])"

text \<open>
  The calls one round of the loop of cell 21 makes, and the calls of the whole loop,
  in closed form (shown equal to what \<open>cell21_loop\<close> appends to the log below).
\<close>

definition round_calls :: "pyval \<Rightarrow> string \<Rightarrow> call list" where
  "round_calls config workspace =
     (let model_file = os_path_join workspace ''sk_model.pkl'';
          loaded = Ret (Lib ''pickle.load'') [file_obj model_file ''rb''];
          predictor = Ret (Lib ''cflearn.SKLearnClassifier'') [loaded]
      in [open_call model_file ''rb'',
          Call (Lib ''pickle.load'') [file_obj model_file ''rb''],
          Call (Lib ''cflearn.SKLearnClassifier'') [loaded],
          Call (Lib ''cflearn.GeneralEvaluationPipeline'') [config, predictor]])"

definition loop_calls :: "pyval \<Rightarrow> (string \<times> string list) list \<Rightarrow> call list" where
  "loop_calls config pairs =
     concat (map (\<lambda>(workspace, workspace_key).
                    if sklearn_key workspace_key then round_calls config workspace else [])
                 pairs)"

text \<open>The names of the calls of one round.\<close>

definition round_names :: "string list" where
  "round_names =
     [''open'', ''pickle.load'', ''cflearn.SKLearnClassifier'',
      ''cflearn.GeneralEvaluationPipeline'']"

text \<open>The log of a run that finished; a run that failed leaves none.\<close>

definition calls_of :: "failure + run \<Rightarrow> call list" where
  "calls_of result = (case result of Inl e \<Rightarrow> [] | Inr r \<Rightarrow> run_log r)"

text \<open>The names of the calls of cells 1 to 8 of the Titanic notebook, in order.\<close>

definition titanic_fixed :: "string list" where
  "titanic_fixed =
     [''cflearn.misc.toolkit.seed_everything'', ''cflearn.MLBundledProcessorConfig'',
      ''cflearn.MLData.init'', ''.fit'', ''cflearn.MLGlobalEncoderSettings'',
      ''cflearn.MLConfig'', ''cflearn.api.fit_ml'', ''.build_loader'', ''.evaluate'',
      ''.build_loader'', ''.predict'', ''.predict'', ''.predict'', ''print'', ''print'']"

text \<open>What cells 1 to 19 of the Iris notebook leave behind, by name.\<close>

definition iris_loader :: pyval where
  "iris_loader = fst (fst iris_cells_1_to_19)"

definition iris_config :: pyval where
  "iris_config = fst (snd (fst iris_cells_1_to_19))"

definition iris_results :: pyval where
  "iris_results = snd (snd (fst iris_cells_1_to_19))"

definition iris_log19 :: "call list" where
  "iris_log19 = snd iris_cells_1_to_19"

text \<open>
  The strings that the \<open>write\<close> calls of a log wrote to the file opened on \<open>path\<close>
  with \<open>"w"\<close>, in order.
\<close>

definition written_by :: "string \<Rightarrow> call \<Rightarrow> string list" where
  "written_by path c =
     (case args c of
        [PStr chunk] \<Rightarrow> (if callee c = Attr (file_obj path ''w'') ''write'' then [chunk] else [])
      | _ \<Rightarrow> [])"

definition written_to :: "string \<Rightarrow> call list \<Rightarrow> string list" where
  "written_to path log = concat (map (written_by path) log)"





text \<open>A call that asks for a number of jobs, and the library a call goes to.\<close>

definition requests_jobs :: "call \<Rightarrow> bool" where
  "requests_jobs c = list_ex (\<lambda>a. case a of Kw k v \<Rightarrow> k = ''num_jobs'' | _ \<Rightarrow> False) (args c)"

fun root_of :: "pyval \<Rightarrow> string" where
  "root_of (Lib n) = takeWhile (\<lambda>ch. ch \<noteq> CHR ''.'') n"
| "root_of (Builtin n) = ''builtins''"
| "root_of (Attr v a) = root_of v"
| "root_of (Item v k) = root_of v"
| "root_of (Upto v n) = root_of v"
| "root_of (SetItem v k x) = root_of v"
| "root_of (Ret f as) = root_of f"
| "root_of v = ''literal''"

definition library_of :: "call \<Rightarrow> string" where
  "library_of c = root_of (callee c)"


section \<open>The script run_sklearn.py\<close>

text \<open>
  The Iris notebook lists the script that the experiment runs for the scikit-learn
  tasks:
  \<^verbatim>\<open>
  info = get_info()
  meta = info.meta
  data = info.data
  assert data is not None
  data.prepare(None)
  loader = data.initialize()[0]
  dataset = loader.get_full_batch()
  x, y = dataset[INPUT_KEY], dataset[LABEL_KEY]
  assert isinstance(x, np.ndarray)
  assert isinstance(y, np.ndarray)
  model = meta["model"]
  if model == "decision_tree":
      base = DecisionTreeClassifier
  elif model == "random_forest":
      base = RandomForestClassifier
  else:
      raise NotImplementedError
  sk_model = base()
  sk_model.fit(x, y.ravel())
  with open(os.path.join(info.workplace, "sk_model.pkl"), "wb") as f:
      pickle.dump(sk_model, f)
  \<close>
  What \<open>get_info\<close> returns is the input: the data (or \<open>None\<close>), given by what its
  full batch holds under the input and the label key, the meta dictionary and the
  workplace. \<open>isinstance(x, np.ndarray)\<close> is the comparison with \<open>NdArray\<close>. Every
  call into \<open>cflearn\<close>, scikit-learn and \<open>pickle\<close> goes to the library and may raise.
  \<open>open\<close> with \<open>"wb"\<close> empties or creates the file; whether it can create it (the
  directory is there) is the parameter \<open>creatable\<close>.
\<close>

datatype batch_value = NdArray | NotNdArray

record info =
  info_data :: "(batch_value \<times> batch_value) option"
  info_meta :: "string \<rightharpoonup> string"
  info_workplace :: string

text \<open>The lines after the \<open>if\<close>: build the model, fit it, pickle it.\<close>

definition train_and_save ::
  "library \<Rightarrow> (string \<Rightarrow> bool) \<Rightarrow> string \<Rightarrow> pyval \<Rightarrow> pyval \<Rightarrow> pyval \<Rightarrow> run \<Rightarrow>
   failure + run" where
  "train_and_save lib creatable workplace base x y w =
     (let sk_model = Ret base [];
          raveled = Ret (Attr y ''ravel'') [];
          path = os_path_join workplace ''sk_model.pkl''
      in case run_calls lib
                [Call base [], Call (Attr y ''ravel'') [],
                 Call (Attr sk_model ''fit'') [x, raveled]] w of
           Inl e \<Rightarrow> Inl e
         | Inr w \<Rightarrow>
             if creatable path then
               lib_call lib (Call (Lib ''pickle.dump'') [sk_model, file_obj path ''wb''])
                 \<lparr>run_files = (run_files w)(path \<mapsto> []),
                  run_log = run_log w @ [open_call path ''wb'']\<rparr>
             else Inl (Raised_by_builtin FileNotFoundError))"

definition run_sklearn :: "library \<Rightarrow> (string \<Rightarrow> bool) \<Rightarrow> info \<Rightarrow> filesystem \<Rightarrow> failure + run" where
  "run_sklearn lib creatable i fs =
     (let info = Ret (Lib ''cflearn.dist.ml.runs._utils.get_info'') [];
          data = Attr info ''data'';
          loader = Item (Ret (Attr data ''initialize'') []) (PInt 0);
          dataset = Ret (Attr loader ''get_full_batch'') [];
          x = Item dataset (Lib ''cflearn.constants.INPUT_KEY'');
          y = Item dataset (Lib ''cflearn.constants.LABEL_KEY'')
      in case lib_call lib (Call (Lib ''cflearn.dist.ml.runs._utils.get_info'') [])
                \<lparr>run_files = fs, run_log = []\<rparr> of
           Inl e \<Rightarrow> Inl e
         | Inr w \<Rightarrow>
             (case info_data i of
                None \<Rightarrow> Inl (Raised_by_statement AssertionError)
              | Some (x_value, y_value) \<Rightarrow>
                  (case run_calls lib
                          [Call (Attr data ''prepare'') [PNone],
                           Call (Attr data ''initialize'') [],
                           Call (Attr loader ''get_full_batch'') []] w of
                     Inl e \<Rightarrow> Inl e
                   | Inr w \<Rightarrow>
                       if x_value \<noteq> NdArray then Inl (Raised_by_statement AssertionError)
                       else if y_value \<noteq> NdArray then Inl (Raised_by_statement AssertionError)
                       else
                         (case info_meta i ''model'' of
                            None \<Rightarrow> Inl (Raised_by_builtin KeyError)
                          | Some model \<Rightarrow>
                              if model = ''decision_tree'' then
                                train_and_save lib creatable (info_workplace i)
                                  (Lib ''sklearn.tree.DecisionTreeClassifier'') x y w
                              else if model = ''random_forest'' then
                                train_and_save lib creatable (info_workplace i)
                                  (Lib ''sklearn.ensemble.RandomForestClassifier'') x y w
                              else Inl (Raised_by_statement NotImplementedError)))))"

text \<open>
  The calls of a run of the script that finishes, in closed form (shown equal to the log
  that \<open>run_sklearn\<close> leaves below).
\<close>

definition script_calls :: "pyval \<Rightarrow> string \<Rightarrow> call list" where
  "script_calls base workplace =
     (let info = Ret (Lib ''cflearn.dist.ml.runs._utils.get_info'') [];
          data = Attr info ''data'';
          loader = Item (Ret (Attr data ''initialize'') []) (PInt 0);
          dataset = Ret (Attr loader ''get_full_batch'') [];
          x = Item dataset (Lib ''cflearn.constants.INPUT_KEY'');
          y = Item dataset (Lib ''cflearn.constants.LABEL_KEY'');
          sk_model = Ret base [];
          path = os_path_join workplace ''sk_model.pkl''
      in [Call (Lib ''cflearn.dist.ml.runs._utils.get_info'') [],
          Call (Attr data ''prepare'') [PNone],
          Call (Attr data ''initialize'') [],
          Call (Attr loader ''get_full_batch'') [],
          Call base [],
          Call (Attr y ''ravel'') [],
          Call (Attr sk_model ''fit'') [x, Ret (Attr y ''ravel'') []],
          open_call path ''wb'',
          Call (Lib ''pickle.dump'') [sk_model, file_obj path ''wb'']])"

text \<open>
  Three tasks: one whose meta names a model the script does not know, and the two
  scikit-learn tasks of the notebook.
\<close>

definition linear_task :: info where
  "linear_task =
     \<lparr>info_data = Some (NdArray, NdArray), info_meta = [''model'' \<mapsto> ''linear''],
      info_workplace = ''_experiment/linear/0''\<rparr>"

definition tree_task :: info where
  "tree_task =
     \<lparr>info_data = Some (NdArray, NdArray), info_meta = [''model'' \<mapsto> ''decision_tree''],
      info_workplace = ''_experiment/decision_tree/0''\<rparr>"

definition forest_task :: info where
  "forest_task =
     \<lparr>info_data = Some (NdArray, NdArray), info_meta = [''model'' \<mapsto> ''random_forest''],
      info_workplace = ''_experiment/random_forest/0''\<rparr>"

section \<open>Sample libraries and sample runs\<close>

text \<open>
  A library that always returns and touches no file, and one for the script whose
  \<open>pickle.dump(obj, f)\<close> writes a pickle of \<open>obj\<close> into the file \<open>f\<close> is open on: a
  protocol 2 stream that rebuilds the object by calling its class, made of the mark
  \<open>0x80 0x02\<close>, the opcode \<open>c\<close> with the module and the name of the class, an empty
  tuple, \<open>R\<close> for the call and the final dot. \<open>pickle.load\<close> accepts a stream with this
  mark and this end.
\<close>

definition idle_library :: library where
  "idle_library log c fs = Returns fs"

definition module_part :: "string \<Rightarrow> string" where
  "module_part n = rev (drop 1 (dropWhile (\<lambda>ch. ch \<noteq> CHR ''.'') (rev n)))"

definition class_part :: "string \<Rightarrow> string" where
  "class_part n = rev (takeWhile (\<lambda>ch. ch \<noteq> CHR ''.'') (rev n))"

definition pickle_of :: "pyval \<Rightarrow> string" where
  "pickle_of v =
     (case v of
        Ret (Lib n) as \<Rightarrow>
          [CHR 0x80, CHR 0x02] @ ''c'' @ module_part n @ [LF] @ class_part n @ [LF] @ '')R.''
      | _ \<Rightarrow> [CHR 0x80, CHR 0x02] @ ''N.'')"

definition is_pickle :: "string \<Rightarrow> bool" where
  "is_pickle content =
     (take 2 content = [CHR 0x80, CHR 0x02] \<and> drop (length content - 1) content = ''.'')"

definition script_library :: library where
  "script_library log c fs =
     (case args c of
        [obj, Ret g [PStr p, PStr mode]] \<Rightarrow>
          if callee_name c = ''pickle.dump'' then Returns (fs(p \<mapsto> pickle_of obj))
          else Returns fs
      | _ \<Rightarrow> Returns fs)"

text \<open>
  A library for the notebooks: \<open>fit_ml\<close> leaves a checkpoint, \<open>run_tasks\<close> runs the
  script for the two scikit-learn tasks, which leaves their pickles, and
  \<open>pickle.load\<close> raises unless the file it is given holds a pickle.
\<close>

definition always :: "string \<Rightarrow> bool" where
  "always path = True"

definition sample_library :: library where
  "sample_library log c fs =
     (if callee_name c = ''cflearn.api.fit_ml'' then
        Returns (fs(''_logs/checkpoints/model.pt'' \<mapsto> ''checkpoint''))
      else if callee_name c = ''.run_tasks'' then
        (case run_sklearn script_library always tree_task fs of
           Inl e \<Rightarrow> Raises ''RuntimeError''
         | Inr r \<Rightarrow>
             (case run_sklearn script_library always forest_task (run_files r) of
                Inl e \<Rightarrow> Raises ''RuntimeError''
              | Inr r' \<Rightarrow> Returns (run_files r')))
      else if callee_name c = ''pickle.load'' then
        (case args c of
           [Ret g [PStr p, PStr mode]] \<Rightarrow>
             (case fs p of
                None \<Rightarrow> Raises ''ValueError''
              | Some content \<Rightarrow>
                  if is_pickle content then Returns fs else Raises ''UnpicklingError'')
         | _ \<Rightarrow> Raises ''TypeError'')
      else Returns fs)"

text \<open>A library whose first call, \<open>seed_everything\<close>, raises.\<close>

definition refusing_library :: library where
  "refusing_library log c fs =
     (if callee_name c = ''cflearn.misc.toolkit.seed_everything'' then Raises ''RuntimeError''
      else Returns fs)"

text \<open>
  The files at the start of the Titanic sample run, and those of the Iris sample run:
  the data only, the workspaces come with \<open>run_tasks\<close>. The workspaces and workspace
  keys are in the shape of the file tree the notebook shows after \<open>run_tasks\<close>.
\<close>

definition sample_titanic_fs :: filesystem where
  "sample_titanic_fs =
     [''train.csv'' \<mapsto> ''PassengerId,Survived,Pclass'' @ [LF] @ ''1,0,3'' @ [LF],
      ''test.csv'' \<mapsto> sample_test_csv]"

definition sample_iris_fs :: filesystem where
  "sample_iris_fs = [''iris.data'' \<mapsto> ''5.1,3.5,1.4,0.2,Iris-setosa'' @ [LF]]"

definition sample_workspaces :: "string list" where
  "sample_workspaces =
     [''_experiment/fcnn/0'', ''_experiment/linear/0'',
      ''_experiment/decision_tree/0'', ''_experiment/random_forest/0'']"

definition sample_workspace_keys :: "string list list" where
  "sample_workspace_keys =
     [[''fcnn'', ''0''], [''linear'', ''0''], [''decision_tree'', ''0''], [''random_forest'', ''0'']]"

text \<open>The files of the Iris sample once the two scikit-learn tasks have run.\<close>

definition sample_trained_fs :: filesystem where
  "sample_trained_fs =
     sample_iris_fs
       (''_experiment/decision_tree/0/sk_model.pkl'' \<mapsto>
          pickle_of (Ret (Lib ''sklearn.tree.DecisionTreeClassifier'') []),
        ''_experiment/random_forest/0/sk_model.pkl'' \<mapsto>
          pickle_of (Ret (Lib ''sklearn.ensemble.RandomForestClassifier'') []))"

section \<open>The Dockerfile\<close>

text \<open>
  \<^verbatim>\<open>
  FROM nvcr.io/nvidia/pytorch:21.07-py3
  WORKDIR /usr/home
  COPY . .
  RUN apt-get update
  RUN apt-get install htop
  RUN apt-get -y install git
  RUN apt-get -y install ssh
  RUN apt-get -y install tmux
  RUN pip install -U pip
  RUN pip install .
  RUN pip install gpustat
  \<close>
  An instruction is kept as written, a \<open>RUN\<close> command as its list of words. The image
  a build produces records the base image, the working directory, what was copied,
  whether the apt package lists were refreshed, and the packages installed.
\<close>

datatype instruction = FROM string | WORKDIR string | COPY string string | RUN "string list"

definition dockerfile :: "instruction list" where
  "dockerfile =
     [FROM ''nvcr.io/nvidia/pytorch:21.07-py3'',
      WORKDIR ''/usr/home'',
      COPY ''.'' ''.'',
      RUN [''apt-get'', ''update''],
      RUN [''apt-get'', ''install'', ''htop''],
      RUN [''apt-get'', ''-y'', ''install'', ''git''],
      RUN [''apt-get'', ''-y'', ''install'', ''ssh''],
      RUN [''apt-get'', ''-y'', ''install'', ''tmux''],
      RUN [''pip'', ''install'', ''-U'', ''pip''],
      RUN [''pip'', ''install'', ''.''],
      RUN [''pip'', ''install'', ''gpustat'']]"

text \<open>
  The packages a command installs: the words after \<open>install\<close> that are not options,
  for \<open>apt-get\<close> and for \<open>pip\<close>; no other command installs anything.
\<close>

definition is_option :: "string \<Rightarrow> bool" where
  "is_option w = (w \<noteq> [] \<and> hd w = CHR ''-'')"

definition installed_by :: "string \<Rightarrow> string list \<Rightarrow> string list" where
  "installed_by tool ws =
     (case ws of
        [] \<Rightarrow> []
      | w # rest \<Rightarrow>
          if w = tool \<and> ''install'' \<in> set rest
          then filter (\<lambda>x. \<not> is_option x) (drop 1 (dropWhile (\<lambda>x. x \<noteq> ''install'') rest))
          else [])"

definition is_package_install :: "instruction \<Rightarrow> bool" where
  "is_package_install i =
     (case i of
        RUN ws \<Rightarrow> installed_by ''apt-get'' ws @ installed_by ''pip'' ws \<noteq> []
      | _ \<Rightarrow> False)"

record image =
  base_image :: string
  workdir :: string
  copied :: "(string \<times> string) list"
  apt_lists_refreshed :: bool
  apt_packages :: "string list"
  pip_packages :: "string list"

definition empty_image :: image where
  "empty_image =
     \<lparr>base_image = [], workdir = ''/'', copied = [], apt_lists_refreshed = False,
      apt_packages = [], pip_packages = []\<rparr>"

fun build_step :: "image \<Rightarrow> instruction \<Rightarrow> image" where
  "build_step img (FROM b) = empty_image\<lparr>base_image := b\<rparr>"
| "build_step img (WORKDIR d) = img\<lparr>workdir := d\<rparr>"
| "build_step img (COPY src dst) = img\<lparr>copied := copied img @ [(src, dst)]\<rparr>"
| "build_step img (RUN ws) =
     img\<lparr>apt_lists_refreshed := (apt_lists_refreshed img \<or> ws = [''apt-get'', ''update'']),
         apt_packages := apt_packages img @ installed_by ''apt-get'' ws,
         pip_packages := pip_packages img @ installed_by ''pip'' ws\<rparr>"

definition build :: "instruction list \<Rightarrow> image" where
  "build instructions = foldl build_step empty_image instructions"

text \<open>The instructions that are neither the base image nor a copy.\<close>

definition other_steps :: "instruction list \<Rightarrow> instruction list" where
  "other_steps instructions =
     filter (\<lambda>i. case i of FROM b \<Rightarrow> False | COPY src dst \<Rightarrow> False | _ \<Rightarrow> True) instructions"

section \<open>The submission file: header, fields, row count and row content\<close>

subsection \<open>Splitting and the id list\<close>

lemma split_comma_nonempty: "py_split_comma s \<noteq> []"
  by (induction s) (auto split: list.splits)

lemma split_comma_hd: "hd (py_split_comma s) = takeWhile (\<lambda>c. c \<noteq> COMMA) s"
  using split_comma_nonempty by (induction s) (auto split: list.splits)

lemma index0_split: "index0 (py_split_comma s) = Inr (takeWhile (\<lambda>c. c \<noteq> COMMA) s)"
  using split_comma_nonempty [of s] split_comma_hd [of s]
  by (cases "py_split_comma s") (auto simp: index0_def)

lemma test_id_of_eq: "test_id_of line = Inr (takeWhile (\<lambda>c. c \<noteq> COMMA) (py_strip line))"
  by (simp add: test_id_of_def index0_split)

lemma id_list_of_eq:
  "id_list_of ls = Inr (map (\<lambda>line. takeWhile (\<lambda>c. c \<noteq> COMMA) (py_strip line)) ls)"
  by (induction ls) (simp_all add: test_id_of_eq)

lemma write_rows_eq:
  "write_rows ps f = f @ map (\<lambda>(test_id, c). submission_row test_id c @ [LF]) ps"
  by (induction ps arbitrary: f) auto

lemma split_comma_no_comma: "COMMA \<notin> set s \<Longrightarrow> py_split_comma s = [s]"
  by (induction s) auto

lemma split_comma_append:
  "COMMA \<notin> set a \<Longrightarrow> py_split_comma (a @ COMMA # b) = a # py_split_comma b"
  by (induction a) auto

lemma readline_append:
  "LF \<notin> set r \<Longrightarrow> readline (r @ LF # rest) = (r @ [LF], rest)"
  by (induction r) auto

lemma iter_lines_Nil: "iter_lines [] = []"
  by (simp add: iter_lines.simps)

lemma iter_lines_line:
  "LF \<notin> set r \<Longrightarrow> iter_lines (r @ LF # rest) = (r @ [LF]) # iter_lines rest"
  by (subst iter_lines.simps) (simp add: readline_append)

lemma iter_lines_concat:
  "\<forall>r\<in>set rs. LF \<notin> set r \<Longrightarrow> iter_lines (concat (map (\<lambda>r. r @ [LF]) rs)) = map (\<lambda>r. r @ [LF]) rs"
  by (induction rs) (simp_all add: iter_lines_Nil iter_lines_line)

lemma iter_lines_tail: "iter_lines (snd (readline f)) = drop 1 (iter_lines f)"
  by (cases "f = []") (auto simp: iter_lines.simps [of f] iter_lines_Nil split: prod.splits)

lemma readline_butlast: "readline s = (l, r) \<Longrightarrow> LF \<notin> set (butlast l)"
  by (induction s arbitrary: l r) (auto split: if_splits prod.splits)

lemma readline_set: "readline s = (l, r) \<Longrightarrow> set l \<subseteq> set s"
  by (induction s arbitrary: l r) (auto split: if_splits prod.splits)

lemma readline_rest_set: "readline s = (l, r) \<Longrightarrow> set r \<subseteq> set s"
  by (induction s arbitrary: l r) (auto split: if_splits prod.splits)

lemma iter_lines_butlast: "l \<in> set (iter_lines s) \<Longrightarrow> LF \<notin> set (butlast l)"
proof (induction s rule: iter_lines.induct)
  case (1 s)
  show ?case
  proof (cases "s = []")
    case True
    with 1 show ?thesis by (simp add: iter_lines_Nil)
  next
    case False
    obtain l0 r where lr: "readline s = (l0, r)" by (cases "readline s")
    with False 1(2) have "l = l0 \<or> l \<in> set (iter_lines r)"
      by (simp add: iter_lines.simps [of s])
    then show ?thesis
      using readline_butlast [OF lr] 1(1) [OF False lr [symmetric]] by blast
  qed
qed

lemma iter_lines_set: "l \<in> set (iter_lines s) \<Longrightarrow> set l \<subseteq> set s"
proof (induction s rule: iter_lines.induct)
  case (1 s)
  show ?case
  proof (cases "s = []")
    case True
    with 1 show ?thesis by (simp add: iter_lines_Nil)
  next
    case False
    obtain l0 r where lr: "readline s = (l0, r)" by (cases "readline s")
    with False 1(2) have "l = l0 \<or> l \<in> set (iter_lines r)"
      by (simp add: iter_lines.simps [of s])
    then show ?thesis
      using readline_set [OF lr] readline_rest_set [OF lr] 1(1) [OF False lr [symmetric]] by blast
  qed
qed

lemma universal_newlines_no_CR: "CR \<notin> set (universal_newlines s)"
  by (induction s rule: universal_newlines.induct) (auto simp: CR_def LF_def)

lemma universal_newlines_id: "CR \<notin> set s \<Longrightarrow> universal_newlines s = s"
  by (induction s rule: universal_newlines.induct) auto

lemma strip_set: "set (py_strip s) \<subseteq> set s"
proof -
  have "set (py_strip s) \<subseteq> set (rev (dropWhile isspace (rev s)))"
    unfolding py_strip_def by (rule set_dropWhileD [THEN subsetI])
  also have "\<dots> \<subseteq> set s" using set_dropWhileD [of _ isspace "rev s"] by auto
  finally show ?thesis .
qed

lemma isspace_LF: "isspace LF"
  by (simp add: isspace_def LF_def)

lemma strip_line_no_LF: "LF \<notin> set (butlast l) \<Longrightarrow> LF \<notin> set (py_strip l)"
proof (cases "l = [] \<or> last l \<noteq> LF")
  case True
  assume "LF \<notin> set (butlast l)"
  with True have "LF \<notin> set l" by (cases l rule: rev_cases) auto
  then show ?thesis using strip_set [of l] by blast
next
  case False
  assume b: "LF \<notin> set (butlast l)"
  from False obtain l' where l: "l = l' @ [LF]" by (cases l rule: rev_cases) auto
  have "py_strip l = py_strip l'" by (simp add: py_strip_def l isspace_LF)
  then show ?thesis using strip_set [of l'] b l by auto
qed

lemma str_nat_digits: "c \<in> set (str_nat n) \<Longrightarrow> c \<in> digit_char ` {0..<10}"
proof (induction n rule: str_nat.induct)
  case (1 n)
  show ?case
  proof (cases "n < 10")
    case True
    with 1(2) show ?thesis by (subst (asm) str_nat.simps) auto
  next
    case False
    with 1(2) have "c \<in> set (str_nat (n div 10)) \<or> c = digit_char (n mod 10)"
      by (subst (asm) str_nat.simps) auto
    then show ?thesis using 1(1) [OF False] by auto
  qed
qed


lemma of_char_digit: "d < 10 \<Longrightarrow> (of_char (digit_char d) :: nat) = 48 + d"
  by (simp add: digit_char_def)

lemma digit_not_sep:
  "d < 10 \<Longrightarrow> digit_char d \<noteq> COMMA \<and> digit_char d \<noteq> LF \<and> digit_char d \<noteq> CR"
proof (intro conjI notI)
  assume d: "d < 10"
  { assume "digit_char d = COMMA"
    then have "(of_char (digit_char d) :: nat) = of_char COMMA" by simp
    with d show False by (simp add: of_char_digit COMMA_def) }
  { assume "digit_char d = LF"
    then have "(of_char (digit_char d) :: nat) = of_char LF" by simp
    with d show False by (simp add: of_char_digit LF_def) }
  { assume "digit_char d = CR"
    then have "(of_char (digit_char d) :: nat) = of_char CR" by simp
    with d show False by (simp add: of_char_digit CR_def) }
qed

lemma str_int_no_sep:
  "COMMA \<notin> set (str_int i) \<and> LF \<notin> set (str_int i) \<and> CR \<notin> set (str_int i)"
proof -
  have "c \<in> set (str_int i) \<Longrightarrow> c = CHR ''-'' \<or> c \<in> digit_char ` {0..<10}" for c
    using str_nat_digits by (auto simp: str_int_def split: if_splits)
  moreover have "c \<in> digit_char ` {0..<10} \<Longrightarrow> c \<noteq> COMMA \<and> c \<noteq> LF \<and> c \<noteq> CR" for c
    using digit_not_sep by auto
  moreover have "CHR ''-'' \<noteq> COMMA \<and> CHR ''-'' \<noteq> LF \<and> CHR ''-'' \<noteq> CR"
    by (simp add: COMMA_def LF_def CR_def)
  ultimately show ?thesis by metis
qed

lemma ids_of_clean:
  assumes "x \<in> set (ids_of t)"
  shows "COMMA \<notin> set x \<and> LF \<notin> set x \<and> CR \<notin> set x"
proof -
  from assms obtain line where line: "line \<in> set (file_lines t)"
    and x: "x = takeWhile (\<lambda>c. c \<noteq> COMMA) (py_strip line)"
    by (auto simp: ids_of_def dest: in_set_dropD)
  have sub: "set x \<subseteq> set (py_strip line)" unfolding x by (auto dest: set_takeWhileD)
  have "COMMA \<notin> set x" unfolding x by (auto dest: set_takeWhileD)
  moreover have "LF \<notin> set (py_strip line)"
    using line iter_lines_butlast strip_line_no_LF by (simp add: file_lines_def)
  moreover have "CR \<notin> set (py_strip line)"
    using line iter_lines_set [of line "universal_newlines t"] universal_newlines_no_CR [of t]
      strip_set [of line] by (auto simp: file_lines_def)
  ultimately show ?thesis using sub by blast
qed

lemma cell9_eq:
  "fs ''test.csv'' = Some t \<Longrightarrow>
   cell9 fs classes =
     Inr (fs(''submission.csv'' \<mapsto> concat (submission_writes (ids_of t) classes)))"
  by (simp add: cell9_def open_r_def id_list_of_eq iter_lines_tail ids_of_def file_lines_def)

lemma submission_writes_eq:
  "submission_writes (ids_of t) classes = map (\<lambda>r. r @ [LF]) (header # rows_of t classes)"
  by (simp add: submission_writes_def write_rows_eq rows_of_def split_def)

lemma header_clean: "LF \<notin> set header \<and> CR \<notin> set header"
  by (simp add: header_def LF_def CR_def)

lemma rows_of_clean:
  assumes "r \<in> set (rows_of t classes)"
  shows "LF \<notin> set r \<and> CR \<notin> set r"
proof -
  from assms obtain x c where "x \<in> set (ids_of t)" and r: "r = submission_row x c"
    by (auto simp: rows_of_def dest: set_zip_leftD)
  then show ?thesis
    using ids_of_clean [of x t] str_int_no_sep [of c]
    by (auto simp: submission_row_def COMMA_def LF_def CR_def)
qed

lemma submission_lines:
  "file_lines (concat (submission_writes (ids_of t) classes)) =
     map (\<lambda>r. r @ [LF]) (header # rows_of t classes)"
proof -
  let ?rs = "header # rows_of t classes"
  let ?out = "concat (map (\<lambda>r. r @ [LF]) ?rs)"
  have clean: "\<forall>r\<in>set ?rs. LF \<notin> set r \<and> CR \<notin> set r"
    using header_clean rows_of_clean by auto
  then have "CR \<notin> set ?out" by (auto simp: CR_def LF_def)
  then have "universal_newlines ?out = ?out" by (rule universal_newlines_id)
  moreover have "iter_lines ?out = map (\<lambda>r. r @ [LF]) ?rs"
    using clean by (intro iter_lines_concat) blast
  ultimately show ?thesis by (simp add: file_lines_def submission_writes_eq)
qed

lemma row_fields:
  assumes "r \<in> set (rows_of t classes)"
  shows "length (py_split_comma r) = 2"
proof -
  from assms obtain x c where x: "x \<in> set (ids_of t)" and r: "r = submission_row x c"
    by (auto simp: rows_of_def dest: set_zip_leftD)
  have "py_split_comma (x @ COMMA # str_int c) = [x, str_int c]"
    using ids_of_clean [OF x] str_int_no_sep [of c]
    by (simp add: split_comma_append split_comma_no_comma)
  then show ?thesis by (simp add: r submission_row_def)
qed

lemma chomp_line: "chomp (r @ [LF]) = r"
  by (simp add: chomp_def)

subsection \<open>The claims about the submission file\<close>

lemma sample_lines:
  "file_lines sample_test_csv =
     [''PassengerId,Pclass,Name,Sex,Age,SibSp,Parch,Ticket,Fare,Cabin,Embarked'' @ [LF],
      ''892,3,'' @ [CHR 0x22] @ ''Kelly, Mr. James'' @ [CHR 0x22] @
        '',male,34.5,0,0,330911,7.8292,,Q'' @ [LF],
      ''893,3,'' @ [CHR 0x22] @ ''Wilkes, Mrs. James (Ellen Needs)'' @ [CHR 0x22] @
        '',female,47,1,0,363272,7,,S'' @ [LF],
      ''894,2,'' @ [CHR 0x22] @ ''Myles, Mr. Thomas Francis'' @ [CHR 0x22] @
        '',male,62,0,0,240276,9.6875,,Q'' @ [LF]]"
  by code_simp

lemma sample_submission:
  "(case cell9 sample_fs sample_classes of Inl e \<Rightarrow> None | Inr fs' \<Rightarrow> fs' ''submission.csv'') =
     Some (''PassengerId,Survived'' @ [LF] @ ''892,0'' @ [LF] @ ''893,1'' @ [LF] @ ''894,0'' @ [LF])"
  by code_simp

text \<open>
  Claim C1. Whenever \<open>test.csv\<close> exists, the submission-writing cell succeeds, and
  the text it leaves in \<open>submission.csv\<close> has a first line that is exactly
  \<open>PassengerId,Survived\<close>; every later line, split at its commas, has exactly two
  fields.
\<close>

theorem submission_header_and_fields:
  assumes "fs ''test.csv'' = Some t"
  shows "\<exists>fs' out. cell9 fs classes = Inr fs' \<and> fs' ''submission.csv'' = Some out \<and>
           file_lines out \<noteq> [] \<and>
           hd (file_lines out) = ''PassengerId,Survived'' @ [LF] \<and>
           (\<forall>l\<in>set (tl (file_lines out)). length (py_split_comma (chomp l)) = 2)"
proof -
  let ?out = "concat (submission_writes (ids_of t) classes)"
  have "\<forall>l\<in>set (tl (file_lines ?out)). length (py_split_comma (chomp l)) = 2"
    using row_fields by (auto simp: submission_lines chomp_line)
  moreover have "hd (file_lines ?out) = ''PassengerId,Survived'' @ [LF]"
    by (simp add: submission_lines header_def)
  moreover have "file_lines ?out \<noteq> []"
    by (simp add: submission_lines)
  ultimately show ?thesis using cell9_eq [of fs t classes] assms by simp
qed

theorem submission_header_and_fields_witness:
  "sample_fs ''test.csv'' = Some sample_test_csv \<and>
   (\<exists>fs' out. cell9 sample_fs sample_classes = Inr fs' \<and>
      fs' ''submission.csv'' = Some out \<and>
      out = ''PassengerId,Survived'' @ [LF] @ ''892,0'' @ [LF] @ ''893,1'' @ [LF] @ ''894,0'' @ [LF] \<and>
      file_lines out \<noteq> [] \<and>
      hd (file_lines out) = ''PassengerId,Survived'' @ [LF] \<and>
      (\<forall>l\<in>set (tl (file_lines out)). length (py_split_comma (chomp l)) = 2))"
proof -
  have t: "sample_fs ''test.csv'' = Some sample_test_csv" by (simp add: sample_fs_def)
  from submission_header_and_fields [of sample_fs sample_test_csv sample_classes, OF t]
  obtain fs' out where c: "cell9 sample_fs sample_classes = Inr fs'"
    and o: "fs' ''submission.csv'' = Some out"
    and rest: "file_lines out \<noteq> [] \<and> hd (file_lines out) = ''PassengerId,Survived'' @ [LF] \<and>
      (\<forall>l\<in>set (tl (file_lines out)). length (py_split_comma (chomp l)) = 2)"
    by blast
  from sample_submission c o
  have v: "out = ''PassengerId,Survived'' @ [LF] @ ''892,0'' @ [LF] @ ''893,1'' @ [LF] @ ''894,0'' @ [LF]"
    by simp
  have "\<exists>fs' out. cell9 sample_fs sample_classes = Inr fs' \<and>
      fs' ''submission.csv'' = Some out \<and>
      out = ''PassengerId,Survived'' @ [LF] @ ''892,0'' @ [LF] @ ''893,1'' @ [LF] @ ''894,0'' @ [LF] \<and>
      file_lines out \<noteq> [] \<and>
      hd (file_lines out) = ''PassengerId,Survived'' @ [LF] \<and>
      (\<forall>l\<in>set (tl (file_lines out)). length (py_split_comma (chomp l)) = 2)"
    by (rule exI [where x = fs'], rule exI [where x = out])
       (rule conjI [OF c conjI [OF o conjI [OF v rest]]])
  with t show ?thesis by (rule conjI)
qed

text \<open>
  Claim C9. For every text of \<open>test.csv\<close> and every array of predicted classes the
  cell returns without an error, and the number of lines of \<open>submission.csv\<close> after
  its header is the minimum of the number of lines of \<open>test.csv\<close> after its first
  line and the number of predicted classes: what one side has in surplus is dropped.
\<close>

theorem submission_row_count:
  assumes "fs ''test.csv'' = Some t"
  shows "\<exists>fs' out. cell9 fs classes = Inr fs' \<and> fs' ''submission.csv'' = Some out \<and>
           length (drop 1 (file_lines out)) =
             min (length (drop 1 (file_lines t))) (length (ravel classes))"
proof -
  let ?out = "concat (submission_writes (ids_of t) classes)"
  have "length (ids_of t) = length (drop 1 (file_lines t))"
    by (simp add: ids_of_def)
  then have "length (drop 1 (file_lines ?out)) =
          min (length (drop 1 (file_lines t))) (length (ravel classes))"
    by (simp add: submission_lines rows_of_def)
  then show ?thesis using cell9_eq [of fs t classes] assms by simp
qed

theorem submission_row_count_witness:
  "sample_fs ''test.csv'' = Some sample_test_csv \<and>
   length (drop 1 (file_lines sample_test_csv)) = 3 \<and>
   length (ravel short_classes) = 2 \<and>
   (\<exists>fs' out. cell9 sample_fs short_classes = Inr fs' \<and>
      fs' ''submission.csv'' = Some out \<and>
      length (drop 1 (file_lines out)) = 2)"
proof -
  have "length (drop 1 (file_lines sample_test_csv)) = 3"
    by (simp add: sample_lines)
  moreover have "length (ravel short_classes) = 2"
    by (simp add: short_classes_def ravel_def)
  ultimately show ?thesis
    using submission_row_count [of sample_fs sample_test_csv short_classes]
    by (simp add: sample_fs_def)
qed

text \<open>
  Claim C10. For every index \<open>i\<close> in range, row \<open>i\<close> of \<open>submission.csv\<close>
  (counting from 0 after the header, line end removed) is the id, a comma and the
  class: the id is line \<open>i + 1\<close> of \<open>test.csv\<close> stripped of surrounding
  whitespace and cut at its first comma, the class is prediction \<open>i\<close> formatted as
  a decimal integer. Row \<open>i\<close> comes from input line \<open>i + 1\<close>, so the rows keep
  the order of the input.
\<close>

theorem submission_row_content:
  assumes "fs ''test.csv'' = Some t"
    and "i < min (length (drop 1 (file_lines t))) (length (ravel classes))"
  shows "\<exists>fs' out. cell9 fs classes = Inr fs' \<and> fs' ''submission.csv'' = Some out \<and>
           chomp (drop 1 (file_lines out) ! i) =
             takeWhile (\<lambda>c. c \<noteq> COMMA) (py_strip (file_lines t ! (i + 1))) @ '','' @
             str_int (ravel classes ! i)"
proof -
  let ?out = "concat (submission_writes (ids_of t) classes)"
  from assms(2) have i: "i < length (ids_of t)" "i < length (ravel classes)"
    by (simp_all add: ids_of_def)
  have "drop 1 (file_lines t) ! i = file_lines t ! (i + 1)"
    using assms(2) by (cases "file_lines t") simp_all
  then have id_i: "ids_of t ! i = takeWhile (\<lambda>c. c \<noteq> COMMA) (py_strip (file_lines t ! (i + 1)))"
    using assms(2) by (simp add: ids_of_def)
  have row_i: "rows_of t classes ! i = submission_row (ids_of t ! i) (ravel classes ! i)"
    using i by (simp add: rows_of_def)
  have "i < length (rows_of t classes)"
    using i by (simp add: rows_of_def)
  then have "drop 1 (file_lines ?out) ! i = rows_of t classes ! i @ [LF]"
    by (simp add: submission_lines)
  then have "chomp (drop 1 (file_lines ?out) ! i) = rows_of t classes ! i"
    by (simp only: chomp_line)
  then have "chomp (drop 1 (file_lines ?out) ! i) =
      takeWhile (\<lambda>c. c \<noteq> COMMA) (py_strip (file_lines t ! (i + 1))) @ '','' @
      str_int (ravel classes ! i)"
    by (simp add: row_i id_i submission_row_def COMMA_def)
  then show ?thesis using cell9_eq [of fs t classes] assms(1) by simp
qed

theorem submission_row_content_witness:
  "sample_fs ''test.csv'' = Some sample_test_csv \<and>
   1 < min (length (drop 1 (file_lines sample_test_csv))) (length (ravel sample_classes)) \<and>
   (\<exists>fs' out. cell9 sample_fs sample_classes = Inr fs' \<and>
      fs' ''submission.csv'' = Some out \<and>
      chomp (drop 1 (file_lines out) ! 1) = ''893,1'')"
proof -
  have m: "1 < min (length (drop 1 (file_lines sample_test_csv))) (length (ravel sample_classes))"
    by (simp add: sample_lines sample_classes_def ravel_def)
  have "takeWhile (\<lambda>c. c \<noteq> COMMA) (py_strip (file_lines sample_test_csv ! (1 + 1))) @
          '','' @ str_int (ravel sample_classes ! 1) = ''893,1''"
    by code_simp
  then show ?thesis
    using submission_row_content [of sample_fs sample_test_csv 1 sample_classes] m
    by (simp add: sample_fs_def)
qed

section \<open>Runs of call lists\<close>

lemma lib_call_Inr:
  "lib_call lib c w = Inr w' \<Longrightarrow>
   run_log w' = run_log w @ [c] \<and> lib (run_log w) c (run_files w) = Returns (run_files w')"
  by (auto simp: lib_call_def split: outcome.splits)

lemma lib_call_Inl:
  "lib_call lib c w = Inl f \<Longrightarrow>
   \<exists>x. lib (run_log w) c (run_files w) = Raises x \<and> f = Raised_by_library c x"
  by (auto simp: lib_call_def split: outcome.splits)

lemma run_calls_log: "run_calls lib cs w = Inr w' \<Longrightarrow> run_log w' = run_log w @ cs"
proof (induction cs arbitrary: w)
  case Nil
  then show ?case by simp
next
  case (Cons c cs)
  from Cons.prems obtain w1 where 1: "lib_call lib c w = Inr w1" and 2: "run_calls lib cs w1 = Inr w'"
    by (cases "lib_call lib c w") simp_all
  from Cons.IH [OF 2] lib_call_Inr [OF 1] show ?case by simp
qed

lemma run_calls_append:
  "run_calls lib (as @ bs) w =
     (case run_calls lib as w of Inl e \<Rightarrow> Inl e | Inr w' \<Rightarrow> run_calls lib bs w')"
  by (induction as arbitrary: w) (simp_all split: sum.splits)

lemma run_calls_Inl:
  "run_calls lib cs w = Inl f \<Longrightarrow>
   \<exists>k x w'. k < length cs \<and> run_calls lib (take k cs) w = Inr w' \<and>
            lib (run_log w') (cs ! k) (run_files w') = Raises x \<and>
            f = Raised_by_library (cs ! k) x"
proof (induction cs arbitrary: w)
  case Nil
  then show ?case by simp
next
  case (Cons c cs)
  show ?case
  proof (cases "lib_call lib c w")
    case (Inl e)
    with Cons.prems have "e = f" by simp
    with lib_call_Inl [OF Inl] obtain x where
      "lib (run_log w) c (run_files w) = Raises x" "f = Raised_by_library c x" by blast
    then have "0 < length (c # cs) \<and> run_calls lib (take 0 (c # cs)) w = Inr w \<and>
            lib (run_log w) ((c # cs) ! 0) (run_files w) = Raises x \<and>
            f = Raised_by_library ((c # cs) ! 0) x" by simp
    then show ?thesis by blast
  next
    case (Inr w1)
    with Cons.prems have "run_calls lib cs w1 = Inl f" by simp
    from Cons.IH [OF this] obtain k x w' where
      "k < length cs" "run_calls lib (take k cs) w1 = Inr w'"
      "lib (run_log w') (cs ! k) (run_files w') = Raises x" "f = Raised_by_library (cs ! k) x"
      by blast
    with Inr have "Suc k < length (c # cs) \<and> run_calls lib (take (Suc k) (c # cs)) w = Inr w' \<and>
            lib (run_log w') ((c # cs) ! Suc k) (run_files w') = Raises x \<and>
            f = Raised_by_library ((c # cs) ! Suc k) x" by simp
    then show ?thesis by blast
  qed
qed

lemma run_calls_raises:
  assumes "k < length cs" and "run_calls lib (take k cs) w = Inr w'"
    and "lib (run_log w') (cs ! k) (run_files w') = Raises x"
  shows "run_calls lib cs w = Inl (Raised_by_library (cs ! k) x)"
proof -
  have "cs = take k cs @ cs ! k # drop (Suc k) cs"
    using assms(1) by (simp add: id_take_nth_drop)
  then have "run_calls lib cs w = run_calls lib (take k cs @ cs ! k # drop (Suc k) cs) w"
    by simp
  also have "\<dots> = Inl (Raised_by_library (cs ! k) x)"
    unfolding run_calls_append using assms(2,3) by (simp add: lib_call_def)
  finally show ?thesis .
qed

section \<open>The notebooks: order of the calls, files, arguments\<close>

subsection \<open>The Titanic notebook\<close>

lemma cell9_ids:
  "id_list_of (iter_lines (snd (readline (universal_newlines t)))) = Inr (ids_of t)"
  by (simp add: id_list_of_eq iter_lines_tail ids_of_def file_lines_def)

lemma cell9_calls_eq:
  "fs ''test.csv'' = Some t \<Longrightarrow>
   cell9_calls fs classes =
     [open_call ''test.csv'' ''r'', Call (Attr (file_obj ''test.csv'' ''r'') ''readline'') [],
      open_call ''submission.csv'' ''w''] @
     map (write_call ''submission.csv'') (submission_writes (ids_of t) classes)"
  by (simp add: cell9_calls_def open_r_def cell9_ids)

lemma writes_names:
  "map callee_name (map (write_call p) ws) = replicate (length ws) ''.write''"
  by (induction ws) (simp_all add: write_call_def)

lemma submission_writes_length:
  "length (submission_writes (ids_of t) classes) =
     Suc (min (length (drop 1 (file_lines t))) (length (ravel classes)))"
  by (simp add: submission_writes_eq rows_of_def) (simp add: ids_of_def)

lemma cell9_calls_names:
  assumes "fs ''test.csv'' = Some t"
  shows "map callee_name (cell9_calls fs classes) =
           [''open'', ''.readline'', ''open''] @
           replicate (Suc (min (length (drop 1 (file_lines t))) (length (ravel classes)))) ''.write''"
proof -
  have "map callee_name (map (write_call ''submission.csv'') (submission_writes (ids_of t) classes)) =
          replicate (Suc (min (length (drop 1 (file_lines t))) (length (ravel classes)))) ''.write''"
    unfolding writes_names submission_writes_length ..
  then show ?thesis
    using assms cell9_calls_eq [of fs t classes] by (simp add: open_call_def file_obj_def)
qed

lemma cell9_Inr: "cell9 fs classes = Inr fs' \<Longrightarrow> \<exists>t. fs ''test.csv'' = Some t"
  by (cases "fs ''test.csv''") (simp_all add: cell9_def open_r_def)

lemma titanic_Inr:
  assumes "titanic lib fs predicted = Inr r"
  obtains w t where
    "run_calls lib titanic_cells_1_to_8 \<lparr>run_files = fs, run_log = []\<rparr> = Inr w"
    and "run_files w ''test.csv'' = Some t"
    and "cell9 (run_files w) predicted = Inr (run_files r)"
    and "run_log r = titanic_cells_1_to_8 @ cell9_calls (run_files w) predicted"
    and "run_files r =
           (run_files w)(''submission.csv'' \<mapsto> concat (submission_writes (ids_of t) predicted))"
proof -
  from assms obtain w where
    w: "run_calls lib titanic_cells_1_to_8 \<lparr>run_files = fs, run_log = []\<rparr> = Inr w"
    by (cases "run_calls lib titanic_cells_1_to_8 \<lparr>run_files = fs, run_log = []\<rparr>")
       (simp_all add: titanic_def)
  from assms w obtain fs' where c: "cell9 (run_files w) predicted = Inr fs'"
    by (cases "cell9 (run_files w) predicted") (simp_all add: titanic_def)
  then obtain t where t: "run_files w ''test.csv'' = Some t" using cell9_Inr by blast
  from run_calls_log [OF w] have l: "run_log w = titanic_cells_1_to_8" by simp
  from assms w c l have
    1: "run_log r = titanic_cells_1_to_8 @ cell9_calls (run_files w) predicted"
    and 2: "run_files r = fs'"
    by (auto simp: titanic_def)
  from c 2 have 3: "cell9 (run_files w) predicted = Inr (run_files r)" by simp
  from 2 c t cell9_eq [of "run_files w" t predicted] have
    4: "run_files r =
           (run_files w)(''submission.csv'' \<mapsto> concat (submission_writes (ids_of t) predicted))"
    by simp
  show thesis by (rule that [OF w t 3 1 4])
qed

lemma titanic_straight_names: "map callee_name titanic_cells_1_to_8 = titanic_fixed"
  by code_simp

lemma titanic_names:
  assumes "titanic lib fs predicted = Inr r"
  shows "\<exists>n. map callee_name (run_log r) =
           titanic_fixed @ [''open'', ''.readline'', ''open''] @ replicate (Suc n) ''.write''"
proof -
  from assms obtain w t where
    "run_calls lib titanic_cells_1_to_8 \<lparr>run_files = fs, run_log = []\<rparr> = Inr w"
    and t: "run_files w ''test.csv'' = Some t"
    and "cell9 (run_files w) predicted = Inr (run_files r)"
    and l: "run_log r = titanic_cells_1_to_8 @ cell9_calls (run_files w) predicted"
    and "run_files r =
           (run_files w)(''submission.csv'' \<mapsto> concat (submission_writes (ids_of t) predicted))"
    by (rule titanic_Inr)
  show ?thesis
    unfolding l using cell9_calls_names [of "run_files w" t predicted] t
    by (simp add: titanic_straight_names)
qed

lemma written_by_write: "written_by p (write_call p chunk) = [chunk]"
  by (simp add: written_by_def write_call_def)

lemma written_to_writes: "written_to p (map (write_call p) ws) = ws"
  by (induction ws) (simp_all add: written_to_def written_by_write)

lemma written_to_append: "written_to p (xs @ ys) = written_to p xs @ written_to p ys"
  by (simp add: written_to_def)

lemma titanic_straight_written: "written_to ''submission.csv'' titanic_cells_1_to_8 = []"
  by code_simp

lemma cell9_calls_written:
  assumes "fs ''test.csv'' = Some t"
  shows "written_to ''submission.csv'' (cell9_calls fs classes) = submission_writes (ids_of t) classes"
proof -
  have "written_to ''submission.csv''
          [open_call ''test.csv'' ''r'', Call (Attr (file_obj ''test.csv'' ''r'') ''readline'') [],
           open_call ''submission.csv'' ''w''] = []"
    by (simp add: written_to_def written_by_def open_call_def)
  then show ?thesis
    using assms cell9_calls_eq [of fs t classes]
    by (simp add: written_to_append written_to_writes del: append.simps)
qed

lemma titanic_sample_runs: "\<exists>r. titanic sample_library sample_titanic_fs sample_classes = Inr r"
proof -
  have "case titanic sample_library sample_titanic_fs sample_classes of
          Inl e \<Rightarrow> False | Inr r \<Rightarrow> True"
    by code_simp
  then show ?thesis
    by (cases "titanic sample_library sample_titanic_fs sample_classes") simp_all
qed

lemma write_call_paths:
  "paths_read_by (write_call p chunk) = [] \<and> paths_written_by (write_call p chunk) = []"
  by (simp add: paths_read_by_def paths_written_by_def write_call_def)

lemma writes_paths:
  "concat (map paths_read_by (map (write_call p) ws)) = [] \<and>
   concat (map paths_written_by (map (write_call p) ws)) = []"
  by (induction ws) (simp_all add: write_call_paths)

lemma cell9_calls_paths:
  assumes "fs ''test.csv'' = Some t"
  shows "concat (map paths_read_by (cell9_calls fs classes)) = [''test.csv''] \<and>
         concat (map paths_written_by (cell9_calls fs classes)) = [''submission.csv'']"
proof -
  have o: "paths_read_by (open_call ''test.csv'' ''r'') = [''test.csv'']"
     "paths_written_by (open_call ''test.csv'' ''r'') = []"
     "paths_read_by (open_call ''submission.csv'' ''w'') = []"
     "paths_written_by (open_call ''submission.csv'' ''w'') = [''submission.csv'']"
     "paths_read_by (Call (Attr (file_obj ''test.csv'' ''r'') ''readline'') []) = []"
     "paths_written_by (Call (Attr (file_obj ''test.csv'' ''r'') ''readline'') []) = []"
    by (simp_all add: paths_read_by_def paths_written_by_def open_call_def)
  show ?thesis
    using assms by (simp add: cell9_calls_def open_r_def cell9_ids o write_call_paths)
qed

lemma titanic_straight_paths:
  "concat (map paths_read_by titanic_cells_1_to_8) = [''train.csv'', ''train.csv'', ''test.csv''] \<and>
   concat (map paths_written_by titanic_cells_1_to_8) = []"
  by code_simp

lemma cell9_calls_writes:
  assumes "fs ''test.csv'' = Some t" and "c \<in> set (cell9_calls fs classes)"
    and "callee_name c = ''.write''"
  shows "\<exists>chunk. c = write_call ''submission.csv'' chunk"
proof -
  from assms(1,2) cell9_calls_eq [of fs t classes] consider
      "c = open_call ''test.csv'' ''r''"
    | "c = Call (Attr (file_obj ''test.csv'' ''r'') ''readline'') []"
    | "c = open_call ''submission.csv'' ''w''"
    | "c \<in> set (map (write_call ''submission.csv'') (submission_writes (ids_of t) classes))"
    by auto
  then show ?thesis
  proof cases
    case 4
    then show ?thesis by auto
  qed (use assms(3) in \<open>simp_all add: open_call_def\<close>)
qed

text \<open>
  Claim C4. In every run of the Titanic notebook that finishes, whatever the library
  does inside its calls, the config is built (\<open>cflearn.MLConfig\<close>), the model is fitted
  (\<open>cflearn.api.fit_ml\<close>), \<open>predict\<close> is called and the CSV file is written, in this
  order: every call of one step lies before the first call of the next, the files are
  opened after the last \<open>predict\<close>, and the run ends with a write. The writes are those
  of the submission cell: the only file opened for writing is \<open>submission.csv\<close>, every
  write goes to it, the first one writes the header, and what the writes wrote, put
  together, is the text of \<open>submission.csv\<close> at the end of the run; the files at the end
  are what cell 9 makes of the files that cells 1 to 8 left. (The \<open>fit\<close> of the claim is
  \<open>fit_ml\<close>, the call the claim cites; the \<open>fit\<close> method of the data object is
  another call, made before the config is built.)
\<close>

theorem titanic_call_order:
  assumes "titanic lib fs predicted = Inr r"
  shows "''cflearn.MLConfig'' \<in> set (map callee_name (run_log r)) \<and>
         ''cflearn.api.fit_ml'' \<in> set (map callee_name (run_log r)) \<and>
         ''.predict'' \<in> set (map callee_name (run_log r)) \<and>
         ''.write'' \<in> set (map callee_name (run_log r)) \<and>
         all_before ''cflearn.MLConfig'' ''cflearn.api.fit_ml'' (map callee_name (run_log r)) \<and>
         all_before ''cflearn.api.fit_ml'' ''.predict'' (map callee_name (run_log r)) \<and>
         all_before ''.predict'' ''open'' (map callee_name (run_log r)) \<and>
         all_before ''.predict'' ''.write'' (map callee_name (run_log r)) \<and>
         last (map callee_name (run_log r)) = ''.write'' \<and>
         paths_written (run_log r) = {''submission.csv''} \<and>
         (\<forall>c\<in>set (run_log r).
            callee_name c = ''.write'' \<longrightarrow> (\<exists>chunk. c = write_call ''submission.csv'' chunk)) \<and>
         hd (written_to ''submission.csv'' (run_log r)) = header @ [LF] \<and>
         run_files r ''submission.csv'' = Some (concat (written_to ''submission.csv'' (run_log r))) \<and>
         (\<exists>w. run_calls lib titanic_cells_1_to_8 \<lparr>run_files = fs, run_log = []\<rparr> = Inr w \<and>
              cell9 (run_files w) predicted = Inr (run_files r))"
proof -
  from assms obtain w t where
    w: "run_calls lib titanic_cells_1_to_8 \<lparr>run_files = fs, run_log = []\<rparr> = Inr w"
    and t: "run_files w ''test.csv'' = Some t"
    and c: "cell9 (run_files w) predicted = Inr (run_files r)"
    and l: "run_log r = titanic_cells_1_to_8 @ cell9_calls (run_files w) predicted"
    and f: "run_files r =
           (run_files w)(''submission.csv'' \<mapsto> concat (submission_writes (ids_of t) predicted))"
    by (rule titanic_Inr)
  from titanic_names [OF assms] obtain n where
    names: "map callee_name (run_log r) =
              titanic_fixed @ [''open'', ''.readline'', ''open''] @ replicate (Suc n) ''.write''"
    by blast
  have order: "''cflearn.MLConfig'' \<in> set (map callee_name (run_log r)) \<and>
         ''cflearn.api.fit_ml'' \<in> set (map callee_name (run_log r)) \<and>
         ''.predict'' \<in> set (map callee_name (run_log r)) \<and>
         ''.write'' \<in> set (map callee_name (run_log r)) \<and>
         all_before ''cflearn.MLConfig'' ''cflearn.api.fit_ml'' (map callee_name (run_log r)) \<and>
         all_before ''cflearn.api.fit_ml'' ''.predict'' (map callee_name (run_log r)) \<and>
         all_before ''.predict'' ''open'' (map callee_name (run_log r)) \<and>
         all_before ''.predict'' ''.write'' (map callee_name (run_log r)) \<and>
         last (map callee_name (run_log r)) = ''.write''"
    unfolding names by (simp add: titanic_fixed_def all_before_def)
  have pw: "paths_written (run_log r) = {''submission.csv''}"
    unfolding paths_written_def l
    using titanic_straight_paths cell9_calls_paths [of "run_files w" t predicted] t by auto
  have wr: "\<forall>c\<in>set (run_log r).
            callee_name c = ''.write'' \<longrightarrow> (\<exists>chunk. c = write_call ''submission.csv'' chunk)"
  proof (intro ballI impI)
    fix c assume "c \<in> set (run_log r)" and n: "callee_name c = ''.write''"
    then consider "c \<in> set titanic_cells_1_to_8" | "c \<in> set (cell9_calls (run_files w) predicted)"
      unfolding l by auto
    then show "\<exists>chunk. c = write_call ''submission.csv'' chunk"
    proof cases
      case 1
      then have "callee_name c \<in> set (map callee_name titanic_cells_1_to_8)" by simp
      with n show ?thesis unfolding titanic_straight_names by (simp add: titanic_fixed_def)
    next
      case 2
      from t 2 n cell9_calls_writes [of "run_files w" t c predicted] show ?thesis by simp
    qed
  qed
  have wt: "written_to ''submission.csv'' (run_log r) = submission_writes (ids_of t) predicted"
    unfolding l written_to_append
    using titanic_straight_written cell9_calls_written [of "run_files w" t predicted] t by simp
  have hd: "hd (written_to ''submission.csv'' (run_log r)) = header @ [LF]"
    unfolding wt submission_writes_eq by simp
  have fl: "run_files r ''submission.csv'' = Some (concat (written_to ''submission.csv'' (run_log r)))"
    unfolding wt f by simp
  have ex: "\<exists>w. run_calls lib titanic_cells_1_to_8 \<lparr>run_files = fs, run_log = []\<rparr> = Inr w \<and>
              cell9 (run_files w) predicted = Inr (run_files r)"
    by (rule exI [where x = w]) (rule conjI [OF w c])
  from order pw wr hd fl ex show ?thesis by simp
qed

lemma titanic_sample_submission:
  "case titanic sample_library sample_titanic_fs sample_classes of
     Inl e \<Rightarrow> False
   | Inr r \<Rightarrow> written_to ''submission.csv'' (run_log r) =
               [''PassengerId,Survived'' @ [LF], ''892,0'' @ [LF], ''893,1'' @ [LF], ''894,0'' @ [LF]]"
  by code_simp

theorem titanic_call_order_witness:
  "\<exists>r. titanic sample_library sample_titanic_fs sample_classes = Inr r \<and>
       all_before ''cflearn.MLConfig'' ''cflearn.api.fit_ml'' (map callee_name (run_log r)) \<and>
       all_before ''cflearn.api.fit_ml'' ''.predict'' (map callee_name (run_log r)) \<and>
       all_before ''.predict'' ''.write'' (map callee_name (run_log r)) \<and>
       last (map callee_name (run_log r)) = ''.write'' \<and>
       run_files r ''submission.csv'' =
         Some (''PassengerId,Survived'' @ [LF] @ ''892,0'' @ [LF] @ ''893,1'' @ [LF] @ ''894,0'' @ [LF])"
proof -
  from titanic_sample_runs obtain r where
    r: "titanic sample_library sample_titanic_fs sample_classes = Inr r" ..
  note o = titanic_call_order [OF r]
  from titanic_sample_submission r have
    "written_to ''submission.csv'' (run_log r) =
       [''PassengerId,Survived'' @ [LF], ''892,0'' @ [LF], ''893,1'' @ [LF], ''894,0'' @ [LF]]"
    by simp
  with o have "run_files r ''submission.csv'' =
         Some (''PassengerId,Survived'' @ [LF] @ ''892,0'' @ [LF] @ ''893,1'' @ [LF] @ ''894,0'' @ [LF])"
    by simp
  with o r have "titanic sample_library sample_titanic_fs sample_classes = Inr r \<and>
       all_before ''cflearn.MLConfig'' ''cflearn.api.fit_ml'' (map callee_name (run_log r)) \<and>
       all_before ''cflearn.api.fit_ml'' ''.predict'' (map callee_name (run_log r)) \<and>
       all_before ''.predict'' ''.write'' (map callee_name (run_log r)) \<and>
       last (map callee_name (run_log r)) = ''.write'' \<and>
       run_files r ''submission.csv'' =
         Some (''PassengerId,Survived'' @ [LF] @ ''892,0'' @ [LF] @ ''893,1'' @ [LF] @ ''894,0'' @ [LF])"
    by simp
  then show ?thesis by (rule exI [where x = r])
qed

subsection \<open>The Iris notebook\<close>

lemma ext_run_Inr:
  "ext_run lib f as w = Inr (v, w') \<longleftrightarrow> v = Ret f as \<and> lib_call lib (Call f as) w = Inr w'"
  by (auto simp: ext_run_def split: sum.splits)

lemma cell21_round:
  assumes "cell21_loop lib config ((workspace, model # rest) # pairs) pipelines w = Inr (p', w')"
    and "model = ''decision_tree'' \<or> model = ''random_forest''"
  obtains w3 where "run_log w3 = run_log w @ round_calls config workspace"
    and "cell21_loop lib config pairs
           (SetItem pipelines model
              (Ret (Lib ''cflearn.GeneralEvaluationPipeline'')
                 [config, Ret (Lib ''cflearn.SKLearnClassifier'')
                    [Ret (Lib ''pickle.load'')
                       [file_obj (os_path_join workspace ''sk_model.pkl'') ''rb'']]])) w3 =
         Inr (p', w')"
proof -
  let ?file = "os_path_join workspace ''sk_model.pkl''"
  let ?loaded = "Ret (Lib ''pickle.load'') [file_obj ?file ''rb'']"
  let ?predictor = "Ret (Lib ''cflearn.SKLearnClassifier'') [?loaded]"
  let ?pipeline = "Ret (Lib ''cflearn.GeneralEvaluationPipeline'') [config, ?predictor]"
  let ?w0 = "w\<lparr>run_log := run_log w @ [open_call ?file ''rb'']\<rparr>"
  from assms have m: "model \<in> set [''decision_tree'', ''random_forest'']" by auto
  from assms(1) m obtain content where "run_files w ?file = Some content"
    by (cases "run_files w ?file") (simp_all add: index0_def Let_def del: set_simps)
  with assms(1) m have
    a: "(case ext_run lib (Lib ''pickle.load'') [file_obj ?file ''rb''] ?w0 of
           Inl e \<Rightarrow> Inl e
         | Inr (loaded, w) \<Rightarrow>
             (case ext_run lib (Lib ''cflearn.SKLearnClassifier'') [loaded] w of
                Inl e \<Rightarrow> Inl e
              | Inr (predictor, w) \<Rightarrow>
                  (case ext_run lib (Lib ''cflearn.GeneralEvaluationPipeline'')
                          [config, predictor] w of
                     Inl e \<Rightarrow> Inl e
                   | Inr (pipeline, w) \<Rightarrow>
                       cell21_loop lib config pairs (SetItem pipelines model pipeline) w))) =
        Inr (p', w')"
    by (simp add: index0_def Let_def del: set_simps)
  then obtain loaded w1 where 1: "ext_run lib (Lib ''pickle.load'') [file_obj ?file ''rb''] ?w0 = Inr (loaded, w1)"
    by (cases "ext_run lib (Lib ''pickle.load'') [file_obj ?file ''rb''] ?w0") auto
  with a obtain predictor w2 where 2: "ext_run lib (Lib ''cflearn.SKLearnClassifier'') [loaded] w1 = Inr (predictor, w2)"
    by (cases "ext_run lib (Lib ''cflearn.SKLearnClassifier'') [loaded] w1") auto
  with a 1 obtain pipeline w3 where
    3: "ext_run lib (Lib ''cflearn.GeneralEvaluationPipeline'') [config, predictor] w2 = Inr (pipeline, w3)"
    by (cases "ext_run lib (Lib ''cflearn.GeneralEvaluationPipeline'') [config, predictor] w2") auto
  from a 1 2 3 have 4: "cell21_loop lib config pairs (SetItem pipelines model pipeline) w3 = Inr (p', w')"
    by simp
  from 1 have l1: "loaded = ?loaded" and c1: "lib_call lib (Call (Lib ''pickle.load'') [file_obj ?file ''rb'']) ?w0 = Inr w1"
    by (simp_all add: ext_run_Inr)
  from 2 l1 have l2: "predictor = ?predictor" and c2: "lib_call lib (Call (Lib ''cflearn.SKLearnClassifier'') [?loaded]) w1 = Inr w2"
    by (simp_all add: ext_run_Inr)
  from 3 l2 have l3: "pipeline = ?pipeline"
    and c3: "lib_call lib (Call (Lib ''cflearn.GeneralEvaluationPipeline'') [config, ?predictor]) w2 = Inr w3"
    by (simp_all add: ext_run_Inr)
  have "run_log w3 = run_log w @ round_calls config workspace"
    using lib_call_Inr [OF c1] lib_call_Inr [OF c2] lib_call_Inr [OF c3]
    by (simp add: round_calls_def Let_def)
  moreover from 4 l3 have "cell21_loop lib config pairs (SetItem pipelines model ?pipeline) w3 = Inr (p', w')"
    by simp
  ultimately show thesis by (rule that)
qed

lemma loop_calls_Nil: "loop_calls config [] = []"
  by (simp add: loop_calls_def)

lemma loop_calls_Cons:
  "loop_calls config ((w, k) # pairs) =
     (if sklearn_key k then round_calls config w else []) @ loop_calls config pairs"
  by (simp add: loop_calls_def)

lemma cell21_loop_log:
  "cell21_loop lib config pairs pipelines w = Inr (pipelines', w') \<Longrightarrow>
   run_log w' = run_log w @ loop_calls config pairs"
proof (induction pairs arbitrary: pipelines w)
  case Nil
  then show ?case by (simp add: loop_calls_Nil)
next
  case (Cons a pairs)
  obtain workspace workspace_key where a: "a = (workspace, workspace_key)" by (cases a)
  from Cons.prems a obtain model rest where k: "workspace_key = model # rest"
    by (cases workspace_key) (simp_all add: index0_def)
  show ?case
  proof (cases "model = ''decision_tree'' \<or> model = ''random_forest''")
    case True
    with k have s: "sklearn_key workspace_key" by (auto simp: sklearn_key_def)
    from Cons.prems [unfolded a k] True obtain w3 where
      1: "run_log w3 = run_log w @ round_calls config workspace"
      and 2: "cell21_loop lib config pairs
           (SetItem pipelines model
              (Ret (Lib ''cflearn.GeneralEvaluationPipeline'')
                 [config, Ret (Lib ''cflearn.SKLearnClassifier'')
                    [Ret (Lib ''pickle.load'')
                       [file_obj (os_path_join workspace ''sk_model.pkl'') ''rb'']]])) w3 =
         Inr (pipelines', w')"
      by (rule cell21_round)
    from Cons.IH [OF 2] 1 s show ?thesis unfolding a loop_calls_Cons by simp
  next
    case False
    with k have s: "\<not> sklearn_key workspace_key" by (simp add: sklearn_key_def)
    from False Cons.prems a k
    have "cell21_loop lib config pairs pipelines w = Inr (pipelines', w')"
      by (auto simp: index0_def)
    from Cons.IH [OF this] s show ?thesis unfolding a loop_calls_Cons by simp
  qed
qed

lemma cell21_loop_pipelines:
  "cell21_loop lib config pairs pipelines w = Inr (pipelines', w') \<Longrightarrow>
   from_cflearn pipelines \<Longrightarrow> from_cflearn pipelines'"
proof (induction pairs arbitrary: pipelines w)
  case Nil
  then show ?case by simp
next
  case (Cons a pairs)
  obtain workspace workspace_key where a: "a = (workspace, workspace_key)" by (cases a)
  from Cons.prems a obtain model rest where k: "workspace_key = model # rest"
    by (cases workspace_key) (simp_all add: index0_def)
  show ?case
  proof (cases "model = ''decision_tree'' \<or> model = ''random_forest''")
    case True
    from Cons.prems(1) [unfolded a k] True obtain w3 where
      1: "run_log w3 = run_log w @ round_calls config workspace"
      and 2: "cell21_loop lib config pairs
           (SetItem pipelines model
              (Ret (Lib ''cflearn.GeneralEvaluationPipeline'')
                 [config, Ret (Lib ''cflearn.SKLearnClassifier'')
                    [Ret (Lib ''pickle.load'')
                       [file_obj (os_path_join workspace ''sk_model.pkl'') ''rb'']]])) w3 =
         Inr (pipelines', w')"
      by (rule cell21_round)
    from Cons.IH [OF 2] Cons.prems(2) show ?thesis by simp
  next
    case False
    with Cons.prems(1) a k
    have "cell21_loop lib config pairs pipelines w = Inr (pipelines', w')"
      by (auto simp: index0_def)
    from Cons.IH [OF this] Cons.prems(2) show ?thesis by simp
  qed
qed

lemma iris_cell21_Inr:
  assumes "iris_cell21 lib workspaces workspace_keys results config w = Inr (pipelines, w')"
  shows "run_log w' = run_log w @ Call (Lib ''cflearn.api.load_pipelines'') [results] #
                      loop_calls config (zip workspaces workspace_keys)"
    and "from_cflearn pipelines"
proof -
  from assms obtain p0 w0 where
    0: "ext_run lib (Lib ''cflearn.api.load_pipelines'') [results] w = Inr (p0, w0)"
    and l: "cell21_loop lib config (zip workspaces workspace_keys) p0 w0 = Inr (pipelines, w')"
    by (cases "ext_run lib (Lib ''cflearn.api.load_pipelines'') [results] w")
       (auto simp: iris_cell21_def)
  from 0 have p: "p0 = Ret (Lib ''cflearn.api.load_pipelines'') [results]"
    and c: "lib_call lib (Call (Lib ''cflearn.api.load_pipelines'') [results]) w = Inr w0"
    by (simp_all add: ext_run_Inr)
  from cell21_loop_log [OF l] lib_call_Inr [OF c]
  show "run_log w' = run_log w @ Call (Lib ''cflearn.api.load_pipelines'') [results] #
                      loop_calls config (zip workspaces workspace_keys)" by simp
  from p have "from_cflearn p0" by simp
  with cell21_loop_pipelines [OF l] show "from_cflearn pipelines" .
qed

lemma iris_cells_split:
  "iris_cells_1_to_19 = ((iris_loader, iris_config, iris_results), iris_log19)"
  by (simp add: iris_loader_def iris_config_def iris_results_def iris_log19_def)

lemma iris_Inr:
  assumes "iris lib fs workspaces workspace_keys = Inr r"
  obtains pipelines where "from_cflearn pipelines"
    and "run_log r =
             iris_log19 @
             Call (Lib ''cflearn.api.load_pipelines'') [iris_results] #
             loop_calls iris_config (zip workspaces workspace_keys) @
             [Call (Lib ''cflearn.api.evaluate'') [iris_loader, pipelines]]"
proof -
  have i: "iris lib fs workspaces workspace_keys =
          (case run_calls lib iris_log19 \<lparr>run_files = fs, run_log = []\<rparr> of
             Inl e \<Rightarrow> Inl e
           | Inr w \<Rightarrow>
               (case iris_cell21 lib workspaces workspace_keys iris_results iris_config w of
                  Inl e \<Rightarrow> Inl e
                | Inr (pipelines, w) \<Rightarrow>
                    run_calls lib (iris_cell23 iris_loader pipelines []) w))"
    unfolding iris_def iris_cells_split by simp
  from assms obtain w where w: "run_calls lib iris_log19 \<lparr>run_files = fs, run_log = []\<rparr> = Inr w"
    unfolding i by (cases "run_calls lib iris_log19 \<lparr>run_files = fs, run_log = []\<rparr>") simp_all
  from assms w obtain pipelines w1 where
    c: "iris_cell21 lib workspaces workspace_keys iris_results iris_config w = Inr (pipelines, w1)"
    unfolding i
    by (cases "iris_cell21 lib workspaces workspace_keys iris_results iris_config w") auto
  from assms w c have e: "run_calls lib (iris_cell23 iris_loader pipelines []) w1 = Inr r"
    unfolding i by simp
  from run_calls_log [OF w] have "run_log w = iris_log19" by simp
  with iris_cell21_Inr [OF c] run_calls_log [OF e]
  have "run_log r =
             iris_log19 @
             Call (Lib ''cflearn.api.load_pipelines'') [iris_results] #
             loop_calls iris_config (zip workspaces workspace_keys) @
             [Call (Lib ''cflearn.api.evaluate'') [iris_loader, pipelines]]"
    by (simp add: iris_cell23_def ext_def)
  with iris_cell21_Inr(2) [OF c] show thesis by (rule that)
qed

lemma iris_sample_runs:
  "\<exists>r. iris sample_library sample_iris_fs sample_workspaces sample_workspace_keys = Inr r"
proof -
  have "case iris sample_library sample_iris_fs sample_workspaces sample_workspace_keys of
          Inl e \<Rightarrow> False | Inr r \<Rightarrow> True"
    by code_simp
  then show ?thesis
    by (cases "iris sample_library sample_iris_fs sample_workspaces sample_workspace_keys") simp_all
qed

subsection \<open>The calls of the four operations and of the loop of cell 21\<close>

lemma round_calls_names: "map callee_name (round_calls config w) = round_names"
  by (simp add: round_calls_def Let_def open_call_def round_names_def)

lemma loop_calls_names:
  "map callee_name (loop_calls config pairs) =
     concat (map (\<lambda>k. if sklearn_key k then round_names else []) (map snd pairs))"
proof (induction pairs)
  case Nil
  show ?case by (simp add: loop_calls_Nil)
next
  case (Cons a pairs)
  obtain w k where a: "a = (w, k)" by (cases a)
  show ?case unfolding a loop_calls_Cons using Cons.IH by (simp add: round_calls_names)
qed

text \<open>
  Claim C2, amended. Building the config, fitting the model and predicting on a loader
  are straight-line: whatever the state, the config cell calls
  \<open>cflearn.MLGlobalEncoderSettings\<close> and then \<open>cflearn.MLConfig\<close>, the fit cell calls
  \<open>cflearn.api.fit_ml\<close> once, and the predict cell calls \<open>build_loader\<close> and then
  \<open>predict\<close> once. Writing the submission file is logic of the notebook itself: it
  opens \<open>test.csv\<close>, reads one line, opens \<open>submission.csv\<close> and makes one write
  for the header and one per pair of an id and a class. Cell 21 of the Iris notebook
  loops over the workspaces of the results and branches on the model: after
  \<open>load_pipelines\<close> it makes the four calls \<open>open\<close>, \<open>pickle.load\<close>,
  \<open>SKLearnClassifier\<close>, \<open>GeneralEvaluationPipeline\<close> for every workspace whose
  model is \<open>decision_tree\<close> or \<open>random_forest\<close>, and none for the others, whatever
  the library does inside its calls.
\<close>

theorem operations_calls:
  "map callee_name (snd (titanic_cell4 d lg)) =
     map callee_name lg @ [''cflearn.MLGlobalEncoderSettings'', ''cflearn.MLConfig''] \<and>
   map callee_name (snd (titanic_cell5 d cfg lg)) =
     map callee_name lg @ [''cflearn.api.fit_ml''] \<and>
   map callee_name (snd (titanic_cell7 mdl lg)) =
     map callee_name lg @ [''.build_loader'', ''.predict''] \<and>
   (fs ''test.csv'' = Some t \<longrightarrow>
      map callee_name (cell9_calls fs classes) =
        [''open'', ''.readline'', ''open''] @
        replicate (1 + min (length (drop 1 (file_lines t))) (length (ravel classes))) ''.write'') \<and>
   (iris_cell21 lib workspaces workspace_keys res cfg w = Inr (pipelines, w') \<longrightarrow>
      map callee_name (run_log w') =
        map callee_name (run_log w) @ ''cflearn.api.load_pipelines'' #
        concat (map (\<lambda>k. if sklearn_key k
                          then [''open'', ''pickle.load'', ''cflearn.SKLearnClassifier'',
                                ''cflearn.GeneralEvaluationPipeline'']
                          else [])
                    (map snd (zip workspaces workspace_keys))))"
proof (intro conjI impI)
  show "map callee_name (snd (titanic_cell4 d lg)) =
     map callee_name lg @ [''cflearn.MLGlobalEncoderSettings'', ''cflearn.MLConfig'']"
    by (simp add: titanic_cell4_def ext_def Let_def)
  show "map callee_name (snd (titanic_cell5 d cfg lg)) =
     map callee_name lg @ [''cflearn.api.fit_ml'']"
    by (simp add: titanic_cell5_def ext_def)
  show "map callee_name (snd (titanic_cell7 mdl lg)) =
     map callee_name lg @ [''.build_loader'', ''.predict'']"
    by (simp add: titanic_cell7_def ext_def Let_def)
next
  assume "fs ''test.csv'' = Some t"
  with cell9_calls_names [of fs t classes]
  show "map callee_name (cell9_calls fs classes) =
        [''open'', ''.readline'', ''open''] @
        replicate (1 + min (length (drop 1 (file_lines t))) (length (ravel classes))) ''.write''"
    by simp
next
  assume "iris_cell21 lib workspaces workspace_keys res cfg w = Inr (pipelines, w')"
  from iris_cell21_Inr(1) [OF this]
  show "map callee_name (run_log w') =
        map callee_name (run_log w) @ ''cflearn.api.load_pipelines'' #
        concat (map (\<lambda>k. if sklearn_key k
                          then [''open'', ''pickle.load'', ''cflearn.SKLearnClassifier'',
                                ''cflearn.GeneralEvaluationPipeline'']
                          else [])
                    (map snd (zip workspaces workspace_keys)))"
    by (simp add: loop_calls_names [unfolded round_names_def])
qed

text \<open>
  The claim as stated fails: on the sample, writing the submission file takes seven
  calls, four of them writes; with one prediction less it takes six.
\<close>

theorem submission_step_calls:
  "map callee_name (cell9_calls sample_fs sample_classes) =
     [''open'', ''.readline'', ''open'', ''.write'', ''.write'', ''.write'', ''.write''] \<and>
   map callee_name (cell9_calls sample_fs short_classes) =
     [''open'', ''.readline'', ''open'', ''.write'', ''.write'', ''.write'']"
  by code_simp

lemma sample_cell21_runs:
  "\<exists>pipelines w'.
     iris_cell21 sample_library sample_workspaces sample_workspace_keys iris_results iris_config
       \<lparr>run_files = sample_trained_fs, run_log = []\<rparr> = Inr (pipelines, w')"
proof -
  have "case iris_cell21 sample_library sample_workspaces sample_workspace_keys
               iris_results iris_config \<lparr>run_files = sample_trained_fs, run_log = []\<rparr> of
          Inl e \<Rightarrow> False | Inr x \<Rightarrow> True"
    by code_simp
  then show ?thesis
    by (cases "iris_cell21 sample_library sample_workspaces sample_workspace_keys
                 iris_results iris_config \<lparr>run_files = sample_trained_fs, run_log = []\<rparr>") auto
qed

theorem operations_calls_witness:
  "sample_fs ''test.csv'' = Some sample_test_csv \<and>
   map callee_name (cell9_calls sample_fs sample_classes) =
     [''open'', ''.readline'', ''open'', ''.write'', ''.write'', ''.write'', ''.write''] \<and>
   (\<exists>pipelines w'.
      iris_cell21 sample_library sample_workspaces sample_workspace_keys iris_results iris_config
        \<lparr>run_files = sample_trained_fs, run_log = []\<rparr> = Inr (pipelines, w') \<and>
      map callee_name (run_log w') =
        [''cflearn.api.load_pipelines'',
         ''open'', ''pickle.load'', ''cflearn.SKLearnClassifier'',
         ''cflearn.GeneralEvaluationPipeline'',
         ''open'', ''pickle.load'', ''cflearn.SKLearnClassifier'',
         ''cflearn.GeneralEvaluationPipeline''])"
proof -
  from sample_cell21_runs obtain pipelines w' where
    run: "iris_cell21 sample_library sample_workspaces sample_workspace_keys iris_results
            iris_config \<lparr>run_files = sample_trained_fs, run_log = []\<rparr> = Inr (pipelines, w')"
    by blast
  note oc = operations_calls [of iris_results "[]" iris_config iris_results sample_fs
      sample_test_csv sample_classes sample_library sample_workspaces sample_workspace_keys
      iris_results "\<lparr>run_files = sample_trained_fs, run_log = []\<rparr>" pipelines w']
  have t: "sample_fs ''test.csv'' = Some sample_test_csv" by (simp add: sample_fs_def)
  have n: "1 + min (length (drop 1 (file_lines sample_test_csv))) (length (ravel sample_classes)) = 4"
    by (simp add: sample_lines sample_classes_def ravel_def)
  have w: "map callee_name (cell9_calls sample_fs sample_classes) =
     [''open'', ''.readline'', ''open'', ''.write'', ''.write'', ''.write'', ''.write'']"
    using oc [THEN conjunct2, THEN conjunct2, THEN conjunct2, THEN conjunct1, THEN mp, OF t]
    unfolding n by (simp add: numeral_eq_Suc)
  have k: "concat (map (\<lambda>k. if sklearn_key k
                          then [''open'', ''pickle.load'', ''cflearn.SKLearnClassifier'',
                                ''cflearn.GeneralEvaluationPipeline'']
                          else [])
                    (map snd (zip sample_workspaces sample_workspace_keys))) =
        [''open'', ''pickle.load'', ''cflearn.SKLearnClassifier'',
         ''cflearn.GeneralEvaluationPipeline'',
         ''open'', ''pickle.load'', ''cflearn.SKLearnClassifier'',
         ''cflearn.GeneralEvaluationPipeline'']"
    by code_simp
  have l: "map callee_name (run_log w') =
        [''cflearn.api.load_pipelines'',
         ''open'', ''pickle.load'', ''cflearn.SKLearnClassifier'',
         ''cflearn.GeneralEvaluationPipeline'',
         ''open'', ''pickle.load'', ''cflearn.SKLearnClassifier'',
         ''cflearn.GeneralEvaluationPipeline'']"
    using oc [THEN conjunct2, THEN conjunct2, THEN conjunct2, THEN conjunct2, THEN mp, OF run]
    unfolding k by simp
  have "\<exists>pipelines w'.
      iris_cell21 sample_library sample_workspaces sample_workspace_keys iris_results iris_config
        \<lparr>run_files = sample_trained_fs, run_log = []\<rparr> = Inr (pipelines, w') \<and>
      map callee_name (run_log w') =
        [''cflearn.api.load_pipelines'',
         ''open'', ''pickle.load'', ''cflearn.SKLearnClassifier'',
         ''cflearn.GeneralEvaluationPipeline'',
         ''open'', ''pickle.load'', ''cflearn.SKLearnClassifier'',
         ''cflearn.GeneralEvaluationPipeline'']"
    by (rule exI [where x = pipelines], rule exI [where x = w']) (rule conjI [OF run l])
  with t w show ?thesis by (intro conjI)
qed

subsection \<open>The script\<close>

lemma train_and_save_Inr:
  assumes "train_and_save lib creatable workplace base x y w = Inr r"
  shows "creatable (os_path_join workplace ''sk_model.pkl'')"
    and "run_log r = run_log w @
           [Call base [], Call (Attr y ''ravel'') [],
            Call (Attr (Ret base []) ''fit'') [x, Ret (Attr y ''ravel'') []],
            open_call (os_path_join workplace ''sk_model.pkl'') ''wb'',
            Call (Lib ''pickle.dump'')
              [Ret base [], file_obj (os_path_join workplace ''sk_model.pkl'') ''wb'']]"
proof -
  let ?cs = "[Call base [], Call (Attr y ''ravel'') [],
              Call (Attr (Ret base []) ''fit'') [x, Ret (Attr y ''ravel'') []]]"
  let ?path = "os_path_join workplace ''sk_model.pkl''"
  from assms obtain w1 where 1: "run_calls lib ?cs w = Inr w1"
    by (cases "run_calls lib ?cs w") (simp_all add: train_and_save_def Let_def)
  with assms show c: "creatable ?path"
    by (cases "creatable ?path") (simp_all add: train_and_save_def Let_def)
  from assms 1 c have
    2: "lib_call lib (Call (Lib ''pickle.dump'') [Ret base [], file_obj ?path ''wb''])
          \<lparr>run_files = (run_files w1)(?path \<mapsto> []),
           run_log = run_log w1 @ [open_call ?path ''wb'']\<rparr> = Inr r"
    by (simp add: train_and_save_def Let_def)
  from lib_call_Inr [OF 2] run_calls_log [OF 1]
  show "run_log r = run_log w @
           [Call base [], Call (Attr y ''ravel'') [],
            Call (Attr (Ret base []) ''fit'') [x, Ret (Attr y ''ravel'') []],
            open_call ?path ''wb'',
            Call (Lib ''pickle.dump'') [Ret base [], file_obj ?path ''wb'']]"
    by simp
qed

lemma train_and_save_Inl:
  "train_and_save lib creatable workplace base x y w \<noteq> Inl (Raised_by_statement e)"
proof
  let ?cs = "[Call base [], Call (Attr y ''ravel'') [],
              Call (Attr (Ret base []) ''fit'') [x, Ret (Attr y ''ravel'') []]]"
  let ?path = "os_path_join workplace ''sk_model.pkl''"
  assume a: "train_and_save lib creatable workplace base x y w = Inl (Raised_by_statement e)"
  show False
  proof (cases "run_calls lib ?cs w")
    case (Inl f)
    with a have "run_calls lib ?cs w = Inl (Raised_by_statement e)"
      by (simp add: train_and_save_def Let_def)
    from run_calls_Inl [OF this] show False by auto
  next
    case (Inr w1)
    with a show False
      by (cases "creatable ?path")
         (auto simp: train_and_save_def Let_def lib_call_def split: outcome.splits)
  qed
qed

lemma run_sklearn_Inr:
  assumes "run_sklearn lib creatable i fs = Inr r"
  obtains base where
    "info_meta i ''model'' = Some ''decision_tree'' \<and> base = Lib ''sklearn.tree.DecisionTreeClassifier'' \<or>
     info_meta i ''model'' = Some ''random_forest'' \<and> base = Lib ''sklearn.ensemble.RandomForestClassifier''"
    and "info_data i = Some (NdArray, NdArray)"
    and "creatable (os_path_join (info_workplace i) ''sk_model.pkl'')"
    and "run_log r = script_calls base (info_workplace i)"
proof -
  let ?info = "Ret (Lib ''cflearn.dist.ml.runs._utils.get_info'') []"
  let ?data = "Attr ?info ''data''"
  let ?loader = "Item (Ret (Attr ?data ''initialize'') []) (PInt 0)"
  let ?dataset = "Ret (Attr ?loader ''get_full_batch'') []"
  let ?x = "Item ?dataset (Lib ''cflearn.constants.INPUT_KEY'')"
  let ?y = "Item ?dataset (Lib ''cflearn.constants.LABEL_KEY'')"
  let ?g = "Call (Lib ''cflearn.dist.ml.runs._utils.get_info'') []"
  let ?cs = "[Call (Attr ?data ''prepare'') [PNone], Call (Attr ?data ''initialize'') [],
              Call (Attr ?loader ''get_full_batch'') []]"
  from assms obtain w0 where 0: "lib_call lib ?g \<lparr>run_files = fs, run_log = []\<rparr> = Inr w0"
    by (cases "lib_call lib ?g \<lparr>run_files = fs, run_log = []\<rparr>")
       (simp_all add: run_sklearn_def Let_def)
  from assms 0 obtain xv yv where d: "info_data i = Some (xv, yv)"
    by (cases "info_data i") (auto simp: run_sklearn_def Let_def)
  from assms 0 d obtain w1 where 1: "run_calls lib ?cs w0 = Inr w1"
    by (cases "run_calls lib ?cs w0") (simp_all add: run_sklearn_def Let_def)
  from assms 0 d 1 have xy: "xv = NdArray" "yv = NdArray"
    by (auto simp: run_sklearn_def Let_def split: if_splits)
  from assms 0 d 1 xy obtain model where m: "info_meta i ''model'' = Some model"
    by (cases "info_meta i ''model''") (simp_all add: run_sklearn_def Let_def)
  have l1: "run_log w1 = ?g # ?cs"
    using lib_call_Inr [OF 0] run_calls_log [OF 1] by simp
  from assms 0 d 1 xy m have
    t: "(if model = ''decision_tree'' then
           train_and_save lib creatable (info_workplace i)
             (Lib ''sklearn.tree.DecisionTreeClassifier'') ?x ?y w1
         else if model = ''random_forest'' then
           train_and_save lib creatable (info_workplace i)
             (Lib ''sklearn.ensemble.RandomForestClassifier'') ?x ?y w1
         else Inl (Raised_by_statement NotImplementedError)) = Inr r"
    by (simp add: run_sklearn_def Let_def)
  then consider
      "model = ''decision_tree''"
      "train_and_save lib creatable (info_workplace i)
         (Lib ''sklearn.tree.DecisionTreeClassifier'') ?x ?y w1 = Inr r"
    | "model = ''random_forest''"
      "train_and_save lib creatable (info_workplace i)
         (Lib ''sklearn.ensemble.RandomForestClassifier'') ?x ?y w1 = Inr r"
    by (auto split: if_splits)
  then show thesis
  proof cases
    case 1
    from train_and_save_Inr [OF 1(2)] l1 have
      "creatable (os_path_join (info_workplace i) ''sk_model.pkl'')"
      "run_log r = script_calls (Lib ''sklearn.tree.DecisionTreeClassifier'') (info_workplace i)"
      by (simp_all add: script_calls_def Let_def)
    with m 1(1) d xy show thesis
      using that [of "Lib ''sklearn.tree.DecisionTreeClassifier''"] by simp
  next
    case 2
    from train_and_save_Inr [OF 2(2)] l1 have
      "creatable (os_path_join (info_workplace i) ''sk_model.pkl'')"
      "run_log r = script_calls (Lib ''sklearn.ensemble.RandomForestClassifier'') (info_workplace i)"
      by (simp_all add: script_calls_def Let_def)
    with m 2(1) d xy show thesis
      using that [of "Lib ''sklearn.ensemble.RandomForestClassifier''"] by simp
  qed
qed

lemma script_calls_paths:
  "concat (map paths_written_by (script_calls base workplace)) =
     [os_path_join workplace ''sk_model.pkl'']"
  by (simp add: script_calls_def Let_def paths_written_by_def open_call_def file_obj_def
      split: pyval.splits list.splits)

lemma pickle_path_last: "last (os_path_join workplace ''sk_model.pkl'') = CHR ''l''"
  by (simp add: os_path_join_def)

lemma pickle_path_other:
  "os_path_join workplace ''sk_model.pkl'' \<notin> {''train.csv'', ''test.csv'', ''iris.data''}"
proof
  assume "os_path_join workplace ''sk_model.pkl'' \<in> {''train.csv'', ''test.csv'', ''iris.data''}"
  then have "last (os_path_join workplace ''sk_model.pkl'') \<in> {CHR ''v'', CHR ''a''}"
    by auto
  then show False unfolding pickle_path_last by simp
qed

subsection \<open>The files the notebooks read and write\<close>

lemma iris_log19_paths:
  "concat (map paths_read_by iris_log19) = [''iris.data'', ''iris.data''] \<and>
   concat (map paths_written_by iris_log19) = []"
  by code_simp

lemma lib_call_paths:
  "n \<noteq> ''open'' \<Longrightarrow> n \<noteq> ''.fit'' \<Longrightarrow> n \<noteq> ''.build_loader'' \<Longrightarrow>
   paths_read_by (Call (Lib n) as) = [] \<and> paths_written_by (Call (Lib n) as) = []"
  by (auto simp: paths_read_by_def paths_written_by_def split: pyval.splits list.splits)

lemma open_rb_paths:
  "paths_read_by (open_call p ''rb'') = [p] \<and> paths_written_by (open_call p ''rb'') = []"
  by (simp add: paths_read_by_def paths_written_by_def open_call_def)

lemma round_calls_paths:
  "concat (map paths_read_by (round_calls config w)) = [os_path_join w ''sk_model.pkl''] \<and>
   concat (map paths_written_by (round_calls config w)) = []"
  by (simp add: round_calls_def Let_def open_rb_paths lib_call_paths)

lemma loop_calls_read:
  "concat (map paths_read_by (loop_calls config pairs)) =
     map (\<lambda>(w, k). os_path_join w ''sk_model.pkl'') (filter (\<lambda>(w, k). sklearn_key k) pairs)"
proof (induction pairs)
  case Nil
  show ?case by (simp add: loop_calls_Nil)
next
  case (Cons a pairs)
  obtain w k where a: "a = (w, k)" by (cases a)
  have "concat (map paths_read_by (loop_calls config (a # pairs))) =
          (if sklearn_key k then [os_path_join w ''sk_model.pkl''] else []) @
          concat (map paths_read_by (loop_calls config pairs))"
    unfolding a loop_calls_Cons using round_calls_paths [of config w] by simp
  then show ?case using Cons.IH a by simp
qed

lemma loop_calls_written:
  "concat (map paths_written_by (loop_calls config pairs)) = []"
proof (induction pairs)
  case Nil
  show ?case by (simp add: loop_calls_Nil)
next
  case (Cons a pairs)
  obtain w k where a: "a = (w, k)" by (cases a)
  have "concat (map paths_written_by (loop_calls config (a # pairs))) =
          concat (map paths_written_by (loop_calls config pairs))"
    unfolding a loop_calls_Cons using round_calls_paths [of config w] by simp
  then show ?case using Cons.IH by simp
qed

text \<open>
  Claim C5, amended. The paths a notebook names for reading are those it opens with
  \<open>"r"\<close> or \<open>"rb"\<close> and those it hands to the library's \<open>fit\<close> and
  \<open>build_loader\<close>. In a finished run, whatever the library does inside its calls, the
  Titanic notebook reads \<open>train.csv\<close> and \<open>test.csv\<close> and nothing else, and the Iris
  notebook reads \<open>iris.data\<close> and, in addition, the \<open>sk_model.pkl\<close> of every
  workspace of the results whose model is \<open>decision_tree\<close> or \<open>random_forest\<close>.
  \<open>train.csv\<close>, \<open>test.csv\<close> and \<open>iris.data\<close> are never opened for writing by the
  code of the repository: the Titanic notebook opens only \<open>submission.csv\<close> for
  writing, and its last cell leaves every other file as cells 1 to 8 left it; the Iris
  notebook opens no file for writing; and a run of \<open>run_sklearn.py\<close> opens for
  writing only the \<open>sk_model.pkl\<close> in its workplace, which is none of the three. The
  \<open>sk_model.pkl\<close> files, then, are read by the notebook and written by the script.
\<close>

theorem notebook_files:
  "(titanic lib fs predicted = Inr r \<longrightarrow>
      paths_read (run_log r) = {''train.csv'', ''test.csv''} \<and>
      paths_written (run_log r) = {''submission.csv''} \<and>
      (\<exists>w. run_calls lib titanic_cells_1_to_8 \<lparr>run_files = fs, run_log = []\<rparr> = Inr w \<and>
           (\<forall>p. p \<noteq> ''submission.csv'' \<longrightarrow> run_files r p = run_files w p))) \<and>
   (iris lib fs2 workspaces workspace_keys = Inr r2 \<longrightarrow>
      paths_read (run_log r2) =
        {''iris.data''} \<union>
        {os_path_join w ''sk_model.pkl'' | w k.
           (w, k) \<in> set (zip workspaces workspace_keys) \<and> sklearn_key k} \<and>
      paths_written (run_log r2) = {}) \<and>
   (run_sklearn lib creatable i fs3 = Inr r3 \<longrightarrow>
      paths_written (run_log r3) = {os_path_join (info_workplace i) ''sk_model.pkl''} \<and>
      os_path_join (info_workplace i) ''sk_model.pkl''
        \<notin> {''train.csv'', ''test.csv'', ''iris.data''})"
proof (intro conjI impI)
  assume a: "titanic lib fs predicted = Inr r"
  then obtain w t where
    w: "run_calls lib titanic_cells_1_to_8 \<lparr>run_files = fs, run_log = []\<rparr> = Inr w"
    and t: "run_files w ''test.csv'' = Some t"
    and c: "cell9 (run_files w) predicted = Inr (run_files r)"
    and l: "run_log r = titanic_cells_1_to_8 @ cell9_calls (run_files w) predicted"
    and f: "run_files r =
           (run_files w)(''submission.csv'' \<mapsto> concat (submission_writes (ids_of t) predicted))"
    by (rule titanic_Inr)
  show "paths_read (run_log r) = {''train.csv'', ''test.csv''}"
    unfolding paths_read_def l
    using titanic_straight_paths cell9_calls_paths [of "run_files w" t predicted] t by auto
  show "paths_written (run_log r) = {''submission.csv''}"
    unfolding paths_written_def l
    using titanic_straight_paths cell9_calls_paths [of "run_files w" t predicted] t by auto
  have "\<forall>p. p \<noteq> ''submission.csv'' \<longrightarrow> run_files r p = run_files w p"
    unfolding f by simp
  with w show "\<exists>w. run_calls lib titanic_cells_1_to_8 \<lparr>run_files = fs, run_log = []\<rparr> = Inr w \<and>
           (\<forall>p. p \<noteq> ''submission.csv'' \<longrightarrow> run_files r p = run_files w p)"
    by (intro exI [where x = w] conjI)
next
  assume "iris lib fs2 workspaces workspace_keys = Inr r2"
  then obtain pipelines where "from_cflearn pipelines"
    and l: "run_log r2 =
             iris_log19 @
             Call (Lib ''cflearn.api.load_pipelines'') [iris_results] #
             loop_calls iris_config (zip workspaces workspace_keys) @
             [Call (Lib ''cflearn.api.evaluate'') [iris_loader, pipelines]]"
    by (rule iris_Inr)
  have "concat (map paths_written_by (run_log r2)) = []"
    unfolding l using iris_log19_paths
    by (simp add: lib_call_paths loop_calls_written del: concat_eq_Nil_conv)
  then show "paths_written (run_log r2) = {}"
    unfolding paths_written_def by simp
  have "concat (map paths_read_by (run_log r2)) =
          [''iris.data'', ''iris.data''] @
          map (\<lambda>(w, k). os_path_join w ''sk_model.pkl'')
            (filter (\<lambda>(w, k). sklearn_key k) (zip workspaces workspace_keys))"
    unfolding l using iris_log19_paths
    by (simp add: lib_call_paths loop_calls_read)
  then show "paths_read (run_log r2) =
        {''iris.data''} \<union>
        {os_path_join w ''sk_model.pkl'' | w k.
           (w, k) \<in> set (zip workspaces workspace_keys) \<and> sklearn_key k}"
    unfolding paths_read_def by force
next
  assume "run_sklearn lib creatable i fs3 = Inr r3"
  then obtain base where
    "info_meta i ''model'' = Some ''decision_tree'' \<and> base = Lib ''sklearn.tree.DecisionTreeClassifier'' \<or>
     info_meta i ''model'' = Some ''random_forest'' \<and> base = Lib ''sklearn.ensemble.RandomForestClassifier''"
    and "info_data i = Some (NdArray, NdArray)"
    and "creatable (os_path_join (info_workplace i) ''sk_model.pkl'')"
    and l: "run_log r3 = script_calls base (info_workplace i)"
    by (rule run_sklearn_Inr)
  show "paths_written (run_log r3) = {os_path_join (info_workplace i) ''sk_model.pkl''}"
    unfolding paths_written_def l script_calls_paths by simp
next
  show "os_path_join (info_workplace i) ''sk_model.pkl''
          \<notin> {''train.csv'', ''test.csv'', ''iris.data''}"
    by (rule pickle_path_other)
qed

text \<open>
  The claim as stated fails: the sample run of the Iris notebook, started with
  \<open>iris.data\<close> alone, reads the pickle of the decision tree, which is none of the
  three files, was not there at the start, and is opened for writing by the run of
  \<open>run_sklearn.py\<close> for the decision tree task.
\<close>

theorem pickle_read_and_written:
  "''_experiment/decision_tree/0/sk_model.pkl''
     \<in> paths_read (calls_of (iris sample_library sample_iris_fs sample_workspaces sample_workspace_keys)) \<and>
   ''_experiment/decision_tree/0/sk_model.pkl'' \<notin> {''train.csv'', ''test.csv'', ''iris.data''} \<and>
   sample_iris_fs ''_experiment/decision_tree/0/sk_model.pkl'' = None \<and>
   ''_experiment/decision_tree/0/sk_model.pkl''
     \<in> paths_written (calls_of (run_sklearn script_library always tree_task sample_iris_fs))"
  by code_simp

lemma sample_pickles:
  "{os_path_join w ''sk_model.pkl'' | w k.
      (w, k) \<in> set (zip sample_workspaces sample_workspace_keys) \<and> sklearn_key k} =
   {''_experiment/decision_tree/0/sk_model.pkl'', ''_experiment/random_forest/0/sk_model.pkl''}"
proof -
  have a: "{os_path_join w ''sk_model.pkl'' | w k. (w, k) \<in> set pairs \<and> sklearn_key k} =
          set (map (\<lambda>(w, k). os_path_join w ''sk_model.pkl'')
                 (filter (\<lambda>(w, k). sklearn_key k) pairs))" for pairs
    by force
  have b: "map (\<lambda>(w, k). os_path_join w ''sk_model.pkl'')
                   (filter (\<lambda>(w, k). sklearn_key k) (zip sample_workspaces sample_workspace_keys)) =
      [''_experiment/decision_tree/0/sk_model.pkl'', ''_experiment/random_forest/0/sk_model.pkl'']"
    by code_simp
  show ?thesis unfolding a b by simp
qed

lemma tree_task_runs: "\<exists>r. run_sklearn script_library always tree_task sample_iris_fs = Inr r"
proof -
  have "case run_sklearn script_library always tree_task sample_iris_fs of
          Inl e \<Rightarrow> False | Inr r \<Rightarrow> True"
    by code_simp
  then show ?thesis
    by (cases "run_sklearn script_library always tree_task sample_iris_fs") simp_all
qed

lemma titanic_sample_keeps:
  "case titanic sample_library sample_titanic_fs sample_classes of
     Inl e \<Rightarrow> False
   | Inr r \<Rightarrow> run_files r ''test.csv'' = Some sample_test_csv \<and>
              run_files r ''_logs/checkpoints/model.pt'' = Some ''checkpoint''"
  by code_simp

theorem notebook_files_witness:
  "(\<exists>r. titanic sample_library sample_titanic_fs sample_classes = Inr r \<and>
      paths_read (run_log r) = {''train.csv'', ''test.csv''} \<and>
      paths_written (run_log r) = {''submission.csv''} \<and>
      run_files r ''test.csv'' = Some sample_test_csv \<and>
      run_files r ''_logs/checkpoints/model.pt'' = Some ''checkpoint'') \<and>
   (\<exists>r2. iris sample_library sample_iris_fs sample_workspaces sample_workspace_keys = Inr r2 \<and>
      paths_read (run_log r2) =
        {''iris.data''} \<union>
        {''_experiment/decision_tree/0/sk_model.pkl'',
         ''_experiment/random_forest/0/sk_model.pkl''} \<and>
      paths_written (run_log r2) = {}) \<and>
   (\<exists>r3. run_sklearn script_library always tree_task sample_iris_fs = Inr r3 \<and>
      paths_written (run_log r3) = {''_experiment/decision_tree/0/sk_model.pkl''})"
proof -
  from titanic_sample_runs obtain r where
    r: "titanic sample_library sample_titanic_fs sample_classes = Inr r" ..
  from iris_sample_runs obtain r2
    where r2: "iris sample_library sample_iris_fs sample_workspaces sample_workspace_keys = Inr r2" ..
  from tree_task_runs obtain r3
    where r3: "run_sklearn script_library always tree_task sample_iris_fs = Inr r3" ..
  note a = notebook_files [of sample_library sample_titanic_fs sample_classes r sample_iris_fs
      sample_workspaces sample_workspace_keys r2 always tree_task sample_iris_fs r3,
      THEN conjunct1, THEN mp, OF r]
  note b = notebook_files [of sample_library sample_titanic_fs sample_classes r sample_iris_fs
      sample_workspaces sample_workspace_keys r2 always tree_task sample_iris_fs r3,
      THEN conjunct2, THEN conjunct1, THEN mp, OF r2]
  note c = notebook_files [of script_library sample_titanic_fs sample_classes r sample_iris_fs
      sample_workspaces sample_workspace_keys r2 always tree_task sample_iris_fs r3,
      THEN conjunct2, THEN conjunct2, THEN mp, OF r3]
  from titanic_sample_keeps r have
    k: "run_files r ''test.csv'' = Some sample_test_csv \<and>
        run_files r ''_logs/checkpoints/model.pt'' = Some ''checkpoint''"
    by simp
  have p: "paths_read (run_log r2) =
        {''iris.data''} \<union>
        {''_experiment/decision_tree/0/sk_model.pkl'',
         ''_experiment/random_forest/0/sk_model.pkl''}"
    using b [THEN conjunct1] unfolding sample_pickles .
  have j: "os_path_join (info_workplace tree_task) ''sk_model.pkl'' =
             ''_experiment/decision_tree/0/sk_model.pkl''"
    by code_simp
  have q: "paths_written (run_log r3) = {''_experiment/decision_tree/0/sk_model.pkl''}"
    using c [THEN conjunct1] unfolding j .
  have one: "titanic sample_library sample_titanic_fs sample_classes = Inr r \<and>
      paths_read (run_log r) = {''train.csv'', ''test.csv''} \<and>
      paths_written (run_log r) = {''submission.csv''} \<and>
      run_files r ''test.csv'' = Some sample_test_csv \<and>
      run_files r ''_logs/checkpoints/model.pt'' = Some ''checkpoint''"
    by (rule conjI [OF r conjI [OF a [THEN conjunct1] conjI [OF a [THEN conjunct2, THEN conjunct1] k]]])
  have two: "iris sample_library sample_iris_fs sample_workspaces sample_workspace_keys = Inr r2 \<and>
      paths_read (run_log r2) =
        {''iris.data''} \<union>
        {''_experiment/decision_tree/0/sk_model.pkl'',
         ''_experiment/random_forest/0/sk_model.pkl''} \<and>
      paths_written (run_log r2) = {}"
    by (rule conjI [OF r2 conjI [OF p b [THEN conjunct2]]])
  have three: "run_sklearn script_library always tree_task sample_iris_fs = Inr r3 \<and>
      paths_written (run_log r3) = {''_experiment/decision_tree/0/sk_model.pkl''}"
    by (rule conjI [OF r3 q])
  from one have "\<exists>r. titanic sample_library sample_titanic_fs sample_classes = Inr r \<and>
      paths_read (run_log r) = {''train.csv'', ''test.csv''} \<and>
      paths_written (run_log r) = {''submission.csv''} \<and>
      run_files r ''test.csv'' = Some sample_test_csv \<and>
      run_files r ''_logs/checkpoints/model.pt'' = Some ''checkpoint''" by (rule exI [where x = r])
  moreover from two have "\<exists>r2. iris sample_library sample_iris_fs sample_workspaces sample_workspace_keys = Inr r2 \<and>
      paths_read (run_log r2) =
        {''iris.data''} \<union>
        {''_experiment/decision_tree/0/sk_model.pkl'',
         ''_experiment/random_forest/0/sk_model.pkl''} \<and>
      paths_written (run_log r2) = {}" by (rule exI [where x = r2])
  moreover from three have "\<exists>r3. run_sklearn script_library always tree_task sample_iris_fs = Inr r3 \<and>
      paths_written (run_log r3) = {''_experiment/decision_tree/0/sk_model.pkl''}"
    by (rule exI [where x = r3])
  ultimately show ?thesis by (intro conjI)
qed

subsection \<open>The arguments passed into cflearn and the use of what it returns\<close>















subsection \<open>Requests for concurrency\<close>

lemma titanic_straight_jobs:
  "filter requests_jobs titanic_cells_1_to_8 = [] \<and>
   list_all (\<lambda>c. library_of c = ''cflearn'' \<or>
                  library_of c = ''builtins'' \<and> callee_name c = ''print'') titanic_cells_1_to_8"
  by code_simp

lemma iris_log19_jobs:
  "map callee (filter requests_jobs iris_log19) = [Lib ''cflearn.api.repeat_ml''] \<and>
   list_all (\<lambda>c. Kw ''num_jobs'' (PInt 2) \<in> set (args c)) (filter requests_jobs iris_log19) \<and>
   list_all (\<lambda>c. library_of c = ''cflearn'' \<or> library_of c = ''np'' \<or>
                  library_of c = ''builtins'' \<and> callee_name c = ''print'') iris_log19"
  by code_simp

lemma iris_values_jobs:
  "\<not> (case iris_config of Kw k v \<Rightarrow> k = ''num_jobs'' | _ \<Rightarrow> False) \<and>
   \<not> (case iris_loader of Kw k v \<Rightarrow> k = ''num_jobs'' | _ \<Rightarrow> False) \<and>
   \<not> (case iris_results of Kw k v \<Rightarrow> k = ''num_jobs'' | _ \<Rightarrow> False)"
  by code_simp

lemma writes_jobs:
  "filter requests_jobs (map (write_call p) ws) = [] \<and>
   list_all (\<lambda>c. library_of c = ''builtins'' \<and> callee_name c = ''.write'') (map (write_call p) ws)"
  by (induction ws) (simp_all add: write_call_def requests_jobs_def library_of_def file_obj_def)

lemma cell9_calls_jobs:
  assumes "fs ''test.csv'' = Some t"
  shows "filter requests_jobs (cell9_calls fs classes) = []"
    and "list_all (\<lambda>c. library_of c = ''builtins'' \<and>
                        callee_name c \<in> {''open'', ''.readline'', ''.write''})
           (cell9_calls fs classes)"
proof -
  note e = cell9_calls_eq [of fs t classes]
  from assms e writes_jobs [of "''submission.csv''" "submission_writes (ids_of t) classes"]
  show "filter requests_jobs (cell9_calls fs classes) = []"
    by (simp add: requests_jobs_def open_call_def file_obj_def)
  have "list_all (\<lambda>c. library_of c = ''builtins'' \<and>
                        callee_name c \<in> {''open'', ''.readline'', ''.write''})
           (map (write_call ''submission.csv'') (submission_writes (ids_of t) classes))"
    using writes_jobs [of "''submission.csv''" "submission_writes (ids_of t) classes"]
    by (simp add: list_all_iff)
  with assms e
  show "list_all (\<lambda>c. library_of c = ''builtins'' \<and>
                        callee_name c \<in> {''open'', ''.readline'', ''.write''})
           (cell9_calls fs classes)"
    by (simp add: library_of_def open_call_def file_obj_def)
qed

lemma round_calls_jobs:
  "filter requests_jobs (round_calls iris_config w) = [] \<and>
   list_all (\<lambda>c. library_of c = ''cflearn'' \<or> library_of c = ''pickle'' \<or>
                  library_of c = ''builtins'' \<and> callee_name c = ''open'')
     (round_calls iris_config w)"
  using iris_values_jobs
  by (simp add: round_calls_def Let_def requests_jobs_def library_of_def open_call_def file_obj_def)

lemma loop_calls_jobs:
  "filter requests_jobs (loop_calls iris_config pairs) = [] \<and>
   list_all (\<lambda>c. library_of c = ''cflearn'' \<or> library_of c = ''pickle'' \<or>
                  library_of c = ''builtins'' \<and> callee_name c = ''open'')
     (loop_calls iris_config pairs)"
proof (induction pairs)
  case Nil
  show ?case by (simp add: loop_calls_Nil)
next
  case (Cons a pairs)
  obtain w k where a: "a = (w, k)" by (cases a)
  show ?case unfolding a loop_calls_Cons using Cons.IH round_calls_jobs [of w] by simp
qed

lemma from_cflearn_no_jobs:
  "from_cflearn v \<Longrightarrow> \<not> (case v of Kw k x \<Rightarrow> k = ''num_jobs'' | _ \<Rightarrow> False)"
  by (cases v) simp_all

lemma script_calls_jobs:
  assumes "base = Lib ''sklearn.tree.DecisionTreeClassifier'' \<or>
           base = Lib ''sklearn.ensemble.RandomForestClassifier''"
  shows "filter requests_jobs (script_calls base workplace) = [] \<and>
         list_all (\<lambda>c. library_of c = ''cflearn'' \<or> library_of c = ''sklearn'' \<or>
                        library_of c = ''pickle'' \<or>
                        library_of c = ''builtins'' \<and> callee_name c = ''open'')
           (script_calls base workplace)"
  using assms
  by (auto simp: script_calls_def Let_def requests_jobs_def library_of_def open_call_def
      file_obj_def)

text \<open>
  Claim C7. Concurrency is asked for in one place only. In every finished run of the
  Iris notebook exactly one call carries a \<open>num_jobs\<close> argument, the call of
  \<open>cflearn.api.repeat_ml\<close> with \<open>num_jobs=2\<close>; no call of the Titanic notebook and no
  call of \<open>run_sklearn.py\<close> carries one. The code of the repository calls nothing that
  schedules, locks or cancels: every call goes to \<open>cflearn\<close>, \<open>numpy\<close>, \<open>pickle\<close> or
  scikit-learn, or is one of the builtins \<open>open\<close>, \<open>print\<close>, \<open>readline\<close> and
  \<open>write\<close>. What the framework does with the request is the library's part.
\<close>

theorem concurrency_requests:
  "(titanic lib fs predicted = Inr r \<longrightarrow>
      filter requests_jobs (run_log r) = [] \<and>
      (\<forall>c\<in>set (run_log r).
         library_of c = ''cflearn'' \<or>
         library_of c = ''builtins'' \<and>
           callee_name c \<in> {''open'', ''print'', ''.readline'', ''.write''})) \<and>
   (iris lib fs2 workspaces workspace_keys = Inr r2 \<longrightarrow>
      (\<exists>as. filter requests_jobs (run_log r2) = [Call (Lib ''cflearn.api.repeat_ml'') as] \<and>
            Kw ''num_jobs'' (PInt 2) \<in> set as) \<and>
      (\<forall>c\<in>set (run_log r2).
         library_of c = ''cflearn'' \<or> library_of c = ''np'' \<or> library_of c = ''pickle'' \<or>
         library_of c = ''builtins'' \<and> callee_name c \<in> {''open'', ''print''})) \<and>
   (run_sklearn lib creatable i fs3 = Inr r3 \<longrightarrow>
      filter requests_jobs (run_log r3) = [] \<and>
      (\<forall>c\<in>set (run_log r3).
         library_of c = ''cflearn'' \<or> library_of c = ''sklearn'' \<or> library_of c = ''pickle'' \<or>
         library_of c = ''builtins'' \<and> callee_name c = ''open''))"
proof (intro conjI impI)
  assume "titanic lib fs predicted = Inr r"
  then obtain w t where
    "run_calls lib titanic_cells_1_to_8 \<lparr>run_files = fs, run_log = []\<rparr> = Inr w"
    and t: "run_files w ''test.csv'' = Some t"
    and "cell9 (run_files w) predicted = Inr (run_files r)"
    and l: "run_log r = titanic_cells_1_to_8 @ cell9_calls (run_files w) predicted"
    and "run_files r =
           (run_files w)(''submission.csv'' \<mapsto> concat (submission_writes (ids_of t) predicted))"
    by (rule titanic_Inr)
  show "filter requests_jobs (run_log r) = []"
    unfolding l using titanic_straight_jobs cell9_calls_jobs(1) [of "run_files w" t predicted] t
    by simp
  show "\<forall>c\<in>set (run_log r).
         library_of c = ''cflearn'' \<or>
         library_of c = ''builtins'' \<and>
           callee_name c \<in> {''open'', ''print'', ''.readline'', ''.write''}"
    unfolding l using titanic_straight_jobs cell9_calls_jobs(2) [of "run_files w" t predicted] t
    by (auto simp: list_all_iff)
next
  assume "iris lib fs2 workspaces workspace_keys = Inr r2"
  then obtain pipelines where p: "from_cflearn pipelines"
    and l: "run_log r2 =
             iris_log19 @
             Call (Lib ''cflearn.api.load_pipelines'') [iris_results] #
             loop_calls iris_config (zip workspaces workspace_keys) @
             [Call (Lib ''cflearn.api.evaluate'') [iris_loader, pipelines]]"
    by (rule iris_Inr)
  from iris_log19_jobs obtain c where
    c: "filter requests_jobs iris_log19 = [c]" "callee c = Lib ''cflearn.api.repeat_ml''"
    by (auto simp: map_eq_Cons_conv)
  obtain f as where fa: "c = Call f as" by (cases c)
  from c(1) iris_log19_jobs have "Kw ''num_jobs'' (PInt 2) \<in> set (args c)" by simp
  with c fa have
    as: "filter requests_jobs iris_log19 = [Call (Lib ''cflearn.api.repeat_ml'') as]"
      "Kw ''num_jobs'' (PInt 2) \<in> set as"
    by simp_all
  have rest: "filter requests_jobs
                (Call (Lib ''cflearn.api.load_pipelines'') [iris_results] #
                 loop_calls iris_config (zip workspaces workspace_keys) @
                 [Call (Lib ''cflearn.api.evaluate'') [iris_loader, pipelines]]) = []"
    using iris_values_jobs from_cflearn_no_jobs [OF p] loop_calls_jobs
    by (simp add: requests_jobs_def)
  have "filter requests_jobs (run_log r2) = [Call (Lib ''cflearn.api.repeat_ml'') as]"
    unfolding l filter_append as(1) rest by simp
  with as(2)
  show "\<exists>as. filter requests_jobs (run_log r2) = [Call (Lib ''cflearn.api.repeat_ml'') as] \<and>
            Kw ''num_jobs'' (PInt 2) \<in> set as"
    by (intro exI [where x = as] conjI)
  show "\<forall>c\<in>set (run_log r2).
         library_of c = ''cflearn'' \<or> library_of c = ''np'' \<or> library_of c = ''pickle'' \<or>
         library_of c = ''builtins'' \<and> callee_name c \<in> {''open'', ''print''}"
  proof
    fix c assume "c \<in> set (run_log r2)"
    with l consider "c \<in> set iris_log19"
      | "c = Call (Lib ''cflearn.api.load_pipelines'') [iris_results]"
      | "c \<in> set (loop_calls iris_config (zip workspaces workspace_keys))"
      | "c = Call (Lib ''cflearn.api.evaluate'') [iris_loader, pipelines]"
      by auto
    then show "library_of c = ''cflearn'' \<or> library_of c = ''np'' \<or> library_of c = ''pickle'' \<or>
         library_of c = ''builtins'' \<and> callee_name c \<in> {''open'', ''print''}"
    proof cases
      case 1
      with iris_log19_jobs show ?thesis by (auto simp: list_all_iff)
    next
      case 2
      then show ?thesis by (simp add: library_of_def)
    next
      case 3
      with loop_calls_jobs [of "zip workspaces workspace_keys"] show ?thesis
        by (auto simp: list_all_iff)
    next
      case 4
      then show ?thesis by (simp add: library_of_def)
    qed
  qed
next
  assume "run_sklearn lib creatable i fs3 = Inr r3"
  then obtain base where
    b: "info_meta i ''model'' = Some ''decision_tree'' \<and> base = Lib ''sklearn.tree.DecisionTreeClassifier'' \<or>
     info_meta i ''model'' = Some ''random_forest'' \<and> base = Lib ''sklearn.ensemble.RandomForestClassifier''"
    and "info_data i = Some (NdArray, NdArray)"
    and "creatable (os_path_join (info_workplace i) ''sk_model.pkl'')"
    and l: "run_log r3 = script_calls base (info_workplace i)"
    by (rule run_sklearn_Inr)
  from b have "base = Lib ''sklearn.tree.DecisionTreeClassifier'' \<or>
           base = Lib ''sklearn.ensemble.RandomForestClassifier''" by auto
  note j = script_calls_jobs [OF this, of "info_workplace i"]
  from j show "filter requests_jobs (run_log r3) = []" unfolding l by simp
  from j show "\<forall>c\<in>set (run_log r3).
         library_of c = ''cflearn'' \<or> library_of c = ''sklearn'' \<or> library_of c = ''pickle'' \<or>
         library_of c = ''builtins'' \<and> callee_name c = ''open''"
    unfolding l by (simp add: list_all_iff)
qed

theorem concurrency_requests_witness:
  "(\<exists>r. titanic sample_library sample_titanic_fs sample_classes = Inr r \<and>
        filter requests_jobs (run_log r) = []) \<and>
   (\<exists>r2 as. iris sample_library sample_iris_fs sample_workspaces sample_workspace_keys = Inr r2 \<and>
        filter requests_jobs (run_log r2) = [Call (Lib ''cflearn.api.repeat_ml'') as] \<and>
        Kw ''num_jobs'' (PInt 2) \<in> set as) \<and>
   (\<exists>r3. run_sklearn script_library always tree_task sample_iris_fs = Inr r3 \<and>
        filter requests_jobs (run_log r3) = [])"
proof -
  from titanic_sample_runs obtain r where
    r: "titanic sample_library sample_titanic_fs sample_classes = Inr r" ..
  from iris_sample_runs obtain r2
    where r2: "iris sample_library sample_iris_fs sample_workspaces sample_workspace_keys = Inr r2" ..
  from tree_task_runs obtain r3
    where r3: "run_sklearn script_library always tree_task sample_iris_fs = Inr r3" ..
  note a = concurrency_requests [of sample_library sample_titanic_fs sample_classes r sample_iris_fs
      sample_workspaces sample_workspace_keys r2 always tree_task sample_iris_fs r3,
      THEN conjunct1, THEN mp, OF r, THEN conjunct1]
  note b = concurrency_requests [of sample_library sample_titanic_fs sample_classes r sample_iris_fs
      sample_workspaces sample_workspace_keys r2 always tree_task sample_iris_fs r3,
      THEN conjunct2, THEN conjunct1, THEN mp, OF r2, THEN conjunct1]
  note c = concurrency_requests [of script_library sample_titanic_fs sample_classes r sample_iris_fs
      sample_workspaces sample_workspace_keys r2 always tree_task sample_iris_fs r3,
      THEN conjunct2, THEN conjunct2, THEN mp, OF r3, THEN conjunct1]
  from b obtain as where
    as: "filter requests_jobs (run_log r2) = [Call (Lib ''cflearn.api.repeat_ml'') as] \<and>
         Kw ''num_jobs'' (PInt 2) \<in> set as" ..
  have "\<exists>r. titanic sample_library sample_titanic_fs sample_classes = Inr r \<and>
        filter requests_jobs (run_log r) = []"
    by (rule exI [where x = r]) (rule conjI [OF r a])
  moreover have "\<exists>r2 as. iris sample_library sample_iris_fs sample_workspaces sample_workspace_keys = Inr r2 \<and>
        filter requests_jobs (run_log r2) = [Call (Lib ''cflearn.api.repeat_ml'') as] \<and>
        Kw ''num_jobs'' (PInt 2) \<in> set as"
    by (rule exI [where x = r2], rule exI [where x = as]) (rule conjI [OF r2 as])
  moreover have "\<exists>r3. run_sklearn script_library always tree_task sample_iris_fs = Inr r3 \<and>
        filter requests_jobs (run_log r3) = []"
    by (rule exI [where x = r3]) (rule conjI [OF r3 c])
  ultimately show ?thesis by (intro conjI)
qed

section \<open>Errors raised by the repository's own code\<close>

lemma lib_call_origin:
  assumes "lib_call lib c w = Inl f"
  shows "\<exists>c x log fs'. f = Raised_by_library c x \<and> lib log c fs' = Raises x"
proof -
  from lib_call_Inl [OF assms] obtain x where
    "lib (run_log w) c (run_files w) = Raises x" and "f = Raised_by_library c x" by auto
  then have a: "f = Raised_by_library c x \<and> lib (run_log w) c (run_files w) = Raises x" by simp
  show ?thesis
    by (rule exI [where x = c], rule exI [where x = x],
        rule exI [where x = "run_log w"], rule exI [where x = "run_files w"]) (rule a)
qed

lemma run_calls_origin:
  "run_calls lib cs w = Inl f \<Longrightarrow>
   \<exists>c x log fs'. f = Raised_by_library c x \<and> lib log c fs' = Raises x"
proof (induction cs arbitrary: w)
  case Nil
  then show ?case by simp
next
  case (Cons c cs)
  show ?case
  proof (cases "lib_call lib c w")
    case (Inl e)
    with Cons.prems have "lib_call lib c w = Inl f" by simp
    then show ?thesis by (rule lib_call_origin)
  next
    case (Inr w1)
    with Cons.prems have "run_calls lib cs w1 = Inl f" by simp
    then show ?thesis by (rule Cons.IH)
  qed
qed

lemma ext_run_origin:
  assumes "ext_run lib g as w = Inl f"
  shows "\<exists>c x log fs'. f = Raised_by_library c x \<and> lib log c fs' = Raises x"
proof -
  from assms have "lib_call lib (Call g as) w = Inl f"
    by (cases "lib_call lib (Call g as) w") (simp_all add: ext_run_def)
  then show ?thesis by (rule lib_call_origin)
qed

lemma cell21_loop_Inl:
  "cell21_loop lib config pairs pipelines w = Inl f \<Longrightarrow>
   (\<exists>e. f = Raised_by_builtin e) \<or>
   (\<exists>c x log fs'. f = Raised_by_library c x \<and> lib log c fs' = Raises x)"
proof (induction pairs arbitrary: pipelines w)
  case Nil
  then show ?case by simp
next
  case (Cons a pairs)
  obtain workspace k where a: "a = (workspace, k)" by (cases a)
  show ?case
  proof (cases k)
    case Nil
    with Cons.prems a show ?thesis by (auto simp: index0_def)
  next
    case k: (Cons model rest)
    let ?file = "os_path_join workspace ''sk_model.pkl''"
    let ?w0 = "w\<lparr>run_log := run_log w @ [open_call ?file ''rb'']\<rparr>"
    show ?thesis
    proof (cases "model \<in> set [''decision_tree'', ''random_forest'']")
      case False
      with Cons.prems a k have "cell21_loop lib config pairs pipelines w = Inl f"
        by (simp add: index0_def del: set_simps)
      from Cons.IH [OF this] show ?thesis .
    next
      case True
      show ?thesis
      proof (cases "run_files w ?file")
        case None
        with Cons.prems a k True show ?thesis
          by (auto simp: index0_def Let_def simp del: set_simps)
      next
        case (Some content)
        with Cons.prems a k True have
          b: "(case ext_run lib (Lib ''pickle.load'') [file_obj ?file ''rb''] ?w0 of
                 Inl e \<Rightarrow> Inl e
               | Inr (loaded, w) \<Rightarrow>
                   (case ext_run lib (Lib ''cflearn.SKLearnClassifier'') [loaded] w of
                      Inl e \<Rightarrow> Inl e
                    | Inr (predictor, w) \<Rightarrow>
                        (case ext_run lib (Lib ''cflearn.GeneralEvaluationPipeline'')
                                [config, predictor] w of
                           Inl e \<Rightarrow> Inl e
                         | Inr (pipeline, w) \<Rightarrow>
                             cell21_loop lib config pairs (SetItem pipelines model pipeline) w))) =
              Inl f"
          by (simp add: index0_def Let_def del: set_simps)
        show ?thesis
        proof (cases "ext_run lib (Lib ''pickle.load'') [file_obj ?file ''rb''] ?w0")
          case (Inl e)
          with b have "ext_run lib (Lib ''pickle.load'') [file_obj ?file ''rb''] ?w0 = Inl f" by simp
          from ext_run_origin [OF this] show ?thesis ..
        next
          case 1: (Inr p1)
          obtain loaded w1 where p1: "p1 = (loaded, w1)" by (cases p1)
          show ?thesis
          proof (cases "ext_run lib (Lib ''cflearn.SKLearnClassifier'') [loaded] w1")
            case (Inl e)
            with b 1 p1 have "ext_run lib (Lib ''cflearn.SKLearnClassifier'') [loaded] w1 = Inl f"
              by simp
            from ext_run_origin [OF this] show ?thesis ..
          next
            case 2: (Inr p2)
            obtain predictor w2 where p2: "p2 = (predictor, w2)" by (cases p2)
            show ?thesis
            proof (cases "ext_run lib (Lib ''cflearn.GeneralEvaluationPipeline'') [config, predictor] w2")
              case (Inl e)
              with b 1 p1 2 p2 have
                "ext_run lib (Lib ''cflearn.GeneralEvaluationPipeline'') [config, predictor] w2 = Inl f"
                by simp
              from ext_run_origin [OF this] show ?thesis ..
            next
              case 3: (Inr p3)
              obtain pipeline w3 where p3: "p3 = (pipeline, w3)" by (cases p3)
              from b 1 p1 2 p2 3 p3 have
                "cell21_loop lib config pairs (SetItem pipelines model pipeline) w3 = Inl f"
                by simp
              from Cons.IH [OF this] show ?thesis .
            qed
          qed
        qed
      qed
    qed
  qed
qed

lemma titanic_Inl:
  assumes "titanic lib fs predicted = Inl f"
  shows "(\<exists>e. f = Raised_by_builtin e) \<or>
         (\<exists>c x log fs'. f = Raised_by_library c x \<and> lib log c fs' = Raises x)"
proof (cases "run_calls lib titanic_cells_1_to_8 \<lparr>run_files = fs, run_log = []\<rparr>")
  case (Inl e)
  with assms have "run_calls lib titanic_cells_1_to_8 \<lparr>run_files = fs, run_log = []\<rparr> = Inl f"
    by (simp add: titanic_def)
  from run_calls_origin [OF this] show ?thesis ..
next
  case (Inr w)
  with assms show ?thesis
    by (cases "cell9 (run_files w) predicted") (auto simp: titanic_def)
qed

lemma iris_unfold:
  "iris lib fs workspaces workspace_keys =
          (case run_calls lib iris_log19 \<lparr>run_files = fs, run_log = []\<rparr> of
             Inl e \<Rightarrow> Inl e
           | Inr w \<Rightarrow>
               (case iris_cell21 lib workspaces workspace_keys iris_results iris_config w of
                  Inl e \<Rightarrow> Inl e
                | Inr (pipelines, w) \<Rightarrow>
                    run_calls lib (iris_cell23 iris_loader pipelines []) w))"
  unfolding iris_def iris_cells_split by simp

lemma iris_Inl:
  assumes "iris lib fs workspaces workspace_keys = Inl f"
  shows "(\<exists>e. f = Raised_by_builtin e) \<or>
         (\<exists>c x log fs'. f = Raised_by_library c x \<and> lib log c fs' = Raises x)"
proof (cases "run_calls lib iris_log19 \<lparr>run_files = fs, run_log = []\<rparr>")
  case (Inl e)
  with assms have "run_calls lib iris_log19 \<lparr>run_files = fs, run_log = []\<rparr> = Inl f"
    by (simp add: iris_unfold)
  from run_calls_origin [OF this] show ?thesis ..
next
  case w: (Inr w)
  show ?thesis
  proof (cases "iris_cell21 lib workspaces workspace_keys iris_results iris_config w")
    case (Inl e)
    with assms w have
      c: "iris_cell21 lib workspaces workspace_keys iris_results iris_config w = Inl f"
      by (simp add: iris_unfold)
    show ?thesis
    proof (cases "ext_run lib (Lib ''cflearn.api.load_pipelines'') [iris_results] w")
      case (Inl e')
      with c have "ext_run lib (Lib ''cflearn.api.load_pipelines'') [iris_results] w = Inl f"
        by (simp add: iris_cell21_def)
      from ext_run_origin [OF this] show ?thesis ..
    next
      case (Inr p0)
      obtain pipelines w0 where "p0 = (pipelines, w0)" by (cases p0)
      with c Inr have
        "cell21_loop lib iris_config (zip workspaces workspace_keys) pipelines w0 = Inl f"
        by (simp add: iris_cell21_def)
      from cell21_loop_Inl [OF this] show ?thesis .
    qed
  next
    case (Inr p1)
    obtain pipelines w1 where "p1 = (pipelines, w1)" by (cases p1)
    with assms w Inr have "run_calls lib (iris_cell23 iris_loader pipelines []) w1 = Inl f"
      by (simp add: iris_unfold)
    from run_calls_origin [OF this] show ?thesis ..
  qed
qed

lemma run_calls_returns:
  assumes "\<forall>log c f x. lib log c f \<noteq> Raises x"
  shows "\<exists>w'. run_calls lib cs w = Inr w'"
proof (induction cs arbitrary: w)
  case Nil
  show ?case by simp
next
  case (Cons c cs)
  from assms obtain fs' where "lib (run_log w) c (run_files w) = Returns fs'"
    by (cases "lib (run_log w) c (run_files w)") auto
  then show ?case using Cons.IH by (simp add: lib_call_def)
qed

lemma run_sklearn_statement:
  assumes "run_sklearn lib creatable i fs = Inl (Raised_by_statement e)"
  shows "e = AssertionError \<and>
           (case info_data i of None \<Rightarrow> True | Some (x, y) \<Rightarrow> x \<noteq> NdArray \<or> y \<noteq> NdArray) \<or>
         e = NotImplementedError \<and> info_data i = Some (NdArray, NdArray) \<and>
           (\<exists>model. info_meta i ''model'' = Some model \<and>
              model \<noteq> ''decision_tree'' \<and> model \<noteq> ''random_forest'')"
proof -
  let ?info = "Ret (Lib ''cflearn.dist.ml.runs._utils.get_info'') []"
  let ?data = "Attr ?info ''data''"
  let ?loader = "Item (Ret (Attr ?data ''initialize'') []) (PInt 0)"
  let ?g = "Call (Lib ''cflearn.dist.ml.runs._utils.get_info'') []"
  let ?cs = "[Call (Attr ?data ''prepare'') [PNone], Call (Attr ?data ''initialize'') [],
              Call (Attr ?loader ''get_full_batch'') []]"
  from assms obtain w0 where 0: "lib_call lib ?g \<lparr>run_files = fs, run_log = []\<rparr> = Inr w0"
    by (cases "lib_call lib ?g \<lparr>run_files = fs, run_log = []\<rparr>")
       (auto simp: run_sklearn_def Let_def dest: lib_call_Inl)
  show ?thesis
  proof (cases "info_data i")
    case None
    with assms 0 show ?thesis by (simp add: run_sklearn_def Let_def)
  next
    case (Some xy)
    obtain xv yv where xy: "xy = (xv, yv)" by (cases xy)
    from assms 0 Some xy obtain w1 where 1: "run_calls lib ?cs w0 = Inr w1"
      by (cases "run_calls lib ?cs w0")
         (auto simp: run_sklearn_def Let_def simp del: run_calls.simps dest: run_calls_origin)
    show ?thesis
    proof (cases "xv = NdArray \<and> yv = NdArray")
      case False
      with assms 0 Some xy 1 show ?thesis
        by (auto simp: run_sklearn_def Let_def split: if_splits)
    next
      case True
      show ?thesis
      proof (cases "info_meta i ''model''")
        case None
        with assms 0 Some xy 1 True show ?thesis by (simp add: run_sklearn_def Let_def)
      next
        case m: (Some model)
        with assms 0 Some xy 1 True have
          "model \<noteq> ''decision_tree'' \<and> model \<noteq> ''random_forest'' \<and> e = NotImplementedError"
          by (auto simp: run_sklearn_def Let_def train_and_save_Inl split: if_splits)
        with Some xy True m show ?thesis by simp
      qed
    qed
  qed
qed

lemma run_sklearn_checks:
  assumes "\<forall>log c f x. lib log c f \<noteq> Raises x"
  shows "(case info_data i of None \<Rightarrow> True | Some (x, y) \<Rightarrow> x \<noteq> NdArray \<or> y \<noteq> NdArray) \<Longrightarrow>
         run_sklearn lib creatable i fs = Inl (Raised_by_statement AssertionError)"
    and "info_data i = Some (NdArray, NdArray) \<Longrightarrow> info_meta i ''model'' = Some model \<Longrightarrow>
         model \<noteq> ''decision_tree'' \<Longrightarrow> model \<noteq> ''random_forest'' \<Longrightarrow>
         run_sklearn lib creatable i fs = Inl (Raised_by_statement NotImplementedError)"
proof -
  let ?info = "Ret (Lib ''cflearn.dist.ml.runs._utils.get_info'') []"
  let ?data = "Attr ?info ''data''"
  let ?loader = "Item (Ret (Attr ?data ''initialize'') []) (PInt 0)"
  let ?g = "Call (Lib ''cflearn.dist.ml.runs._utils.get_info'') []"
  let ?cs = "[Call (Attr ?data ''prepare'') [PNone], Call (Attr ?data ''initialize'') [],
              Call (Attr ?loader ''get_full_batch'') []]"
  from run_calls_returns [OF assms, of "[?g]" "\<lparr>run_files = fs, run_log = []\<rparr>"]
  obtain w0 where 0: "lib_call lib ?g \<lparr>run_files = fs, run_log = []\<rparr> = Inr w0"
    by (cases "lib_call lib ?g \<lparr>run_files = fs, run_log = []\<rparr>") auto
  from run_calls_returns [OF assms, of ?cs w0] obtain w1 where 1: "run_calls lib ?cs w0 = Inr w1" ..
  {
    assume "case info_data i of None \<Rightarrow> True | Some (x, y) \<Rightarrow> x \<noteq> NdArray \<or> y \<noteq> NdArray"
    with 0 1 show "run_sklearn lib creatable i fs = Inl (Raised_by_statement AssertionError)"
      by (auto simp: run_sklearn_def Let_def split: option.splits)
  }
  {
    assume "info_data i = Some (NdArray, NdArray)" "info_meta i ''model'' = Some model"
      "model \<noteq> ''decision_tree''" "model \<noteq> ''random_forest''"
    with 0 1 show "run_sklearn lib creatable i fs = Inl (Raised_by_statement NotImplementedError)"
      by (simp add: run_sklearn_def Let_def)
  }
qed

lemma run_calls_idle: "run_calls idle_library cs w = Inr (w\<lparr>run_log := run_log w @ cs\<rparr>)"
  by (induction cs arbitrary: w) (simp_all add: lib_call_def idle_library_def)

text \<open>
  Claim C3, amended. The notebooks raise nothing themselves and catch nothing. Whatever
  the library does, no run of a notebook fails by a statement of the notebook; a
  failure that a run attributes to a library call is an exception the library raised
  at that call; an exception the library raises at a call of cells 1 to 8 of the Titanic
  notebook or of cells 1 to 19 of the Iris notebook ends the run as that exception, and
  so do an exception of a builtin operation in the submission cell and an exception of
  \<open>pickle.load\<close> in the loop of cell 21. The script \<open>run_sklearn.py\<close>, however,
  checks its input itself. When a run of the script fails by one of its own statements,
  it is an assertion and the data is missing or \<open>x\<close> or \<open>y\<close> is not a numpy array,
  or it is \<open>NotImplementedError\<close> and the data passed and the model is neither
  \<open>decision_tree\<close> nor \<open>random_forest\<close>; and with a library that raises nothing the
  script fails in these ways exactly under these conditions.
\<close>

theorem authored_errors:
  "titanic lib fs predicted \<noteq> Inl (Raised_by_statement e) \<and>
   iris lib fs2 workspaces workspace_keys \<noteq> Inl (Raised_by_statement e) \<and>
   (titanic lib fs predicted = Inl (Raised_by_library c x) \<longrightarrow>
      (\<exists>log fs'. lib log c fs' = Raises x)) \<and>
   (iris lib fs2 workspaces workspace_keys = Inl (Raised_by_library c x) \<longrightarrow>
      (\<exists>log fs'. lib log c fs' = Raises x)) \<and>
   (k < length titanic_cells_1_to_8 \<and>
    run_calls lib (take k titanic_cells_1_to_8) \<lparr>run_files = fs, run_log = []\<rparr> = Inr w \<and>
    lib (run_log w) (titanic_cells_1_to_8 ! k) (run_files w) = Raises x \<longrightarrow>
      titanic lib fs predicted = Inl (Raised_by_library (titanic_cells_1_to_8 ! k) x)) \<and>
   (k < length iris_log19 \<and>
    run_calls lib (take k iris_log19) \<lparr>run_files = fs2, run_log = []\<rparr> = Inr w2 \<and>
    lib (run_log w2) (iris_log19 ! k) (run_files w2) = Raises x \<longrightarrow>
      iris lib fs2 workspaces workspace_keys = Inl (Raised_by_library (iris_log19 ! k) x)) \<and>
   (run_calls lib9 titanic_cells_1_to_8 \<lparr>run_files = fs9, run_log = []\<rparr> = Inr w9 \<and>
    cell9 (run_files w9) predicted = Inl b \<longrightarrow>
      titanic lib9 fs9 predicted = Inl (Raised_by_builtin b)) \<and>
   (run_files w21 (os_path_join workspace ''sk_model.pkl'') = Some content \<and>
    model \<in> set [''decision_tree'', ''random_forest''] \<and>
    lib21 (run_log w21 @ [open_call (os_path_join workspace ''sk_model.pkl'') ''rb''])
      (Call (Lib ''pickle.load'') [file_obj (os_path_join workspace ''sk_model.pkl'') ''rb''])
      (run_files w21) = Raises x21 \<longrightarrow>
      cell21_loop lib21 config ((workspace, model # rest) # pairs) pipelines w21 =
        Inl (Raised_by_library
               (Call (Lib ''pickle.load'')
                  [file_obj (os_path_join workspace ''sk_model.pkl'') ''rb'']) x21)) \<and>
   (run_sklearn lib3 creatable i fs3 = Inl (Raised_by_statement e3) \<longrightarrow>
      e3 = AssertionError \<and>
        (case info_data i of None \<Rightarrow> True | Some (x, y) \<Rightarrow> x \<noteq> NdArray \<or> y \<noteq> NdArray) \<or>
      e3 = NotImplementedError \<and> info_data i = Some (NdArray, NdArray) \<and>
        (\<exists>model. info_meta i ''model'' = Some model \<and>
           model \<noteq> ''decision_tree'' \<and> model \<noteq> ''random_forest'')) \<and>
   ((\<forall>log c f x. lib3 log c f \<noteq> Raises x) \<longrightarrow>
      (run_sklearn lib3 creatable i fs3 = Inl (Raised_by_statement AssertionError) \<longleftrightarrow>
         (case info_data i of None \<Rightarrow> True | Some (x, y) \<Rightarrow> x \<noteq> NdArray \<or> y \<noteq> NdArray)) \<and>
      (run_sklearn lib3 creatable i fs3 = Inl (Raised_by_statement NotImplementedError) \<longleftrightarrow>
         info_data i = Some (NdArray, NdArray) \<and>
         (\<exists>model. info_meta i ''model'' = Some model \<and>
            model \<noteq> ''decision_tree'' \<and> model \<noteq> ''random_forest'')))"
proof (intro conjI impI)
  show "titanic lib fs predicted \<noteq> Inl (Raised_by_statement e)"
    using titanic_Inl [of lib fs predicted "Raised_by_statement e"] by auto
  show "iris lib fs2 workspaces workspace_keys \<noteq> Inl (Raised_by_statement e)"
    using iris_Inl [of lib fs2 workspaces workspace_keys "Raised_by_statement e"] by auto
next
  assume "titanic lib fs predicted = Inl (Raised_by_library c x)"
  from titanic_Inl [OF this] show "\<exists>log fs'. lib log c fs' = Raises x" by auto
next
  assume "iris lib fs2 workspaces workspace_keys = Inl (Raised_by_library c x)"
  from iris_Inl [OF this] show "\<exists>log fs'. lib log c fs' = Raises x" by auto
next
  assume a: "k < length titanic_cells_1_to_8 \<and>
    run_calls lib (take k titanic_cells_1_to_8) \<lparr>run_files = fs, run_log = []\<rparr> = Inr w \<and>
    lib (run_log w) (titanic_cells_1_to_8 ! k) (run_files w) = Raises x"
  have "run_calls lib titanic_cells_1_to_8 \<lparr>run_files = fs, run_log = []\<rparr> =
          Inl (Raised_by_library (titanic_cells_1_to_8 ! k) x)"
    by (rule run_calls_raises [OF a [THEN conjunct1] a [THEN conjunct2, THEN conjunct1]
          a [THEN conjunct2, THEN conjunct2]])
  then show "titanic lib fs predicted = Inl (Raised_by_library (titanic_cells_1_to_8 ! k) x)"
    by (simp add: titanic_def)
next
  assume a: "k < length iris_log19 \<and>
    run_calls lib (take k iris_log19) \<lparr>run_files = fs2, run_log = []\<rparr> = Inr w2 \<and>
    lib (run_log w2) (iris_log19 ! k) (run_files w2) = Raises x"
  have "run_calls lib iris_log19 \<lparr>run_files = fs2, run_log = []\<rparr> =
          Inl (Raised_by_library (iris_log19 ! k) x)"
    by (rule run_calls_raises [OF a [THEN conjunct1] a [THEN conjunct2, THEN conjunct1]
          a [THEN conjunct2, THEN conjunct2]])
  then show "iris lib fs2 workspaces workspace_keys = Inl (Raised_by_library (iris_log19 ! k) x)"
    by (simp add: iris_unfold)
next
  assume "run_calls lib9 titanic_cells_1_to_8 \<lparr>run_files = fs9, run_log = []\<rparr> = Inr w9 \<and>
    cell9 (run_files w9) predicted = Inl b"
  then show "titanic lib9 fs9 predicted = Inl (Raised_by_builtin b)"
    by (simp add: titanic_def)
next
  assume "run_files w21 (os_path_join workspace ''sk_model.pkl'') = Some content \<and>
    model \<in> set [''decision_tree'', ''random_forest''] \<and>
    lib21 (run_log w21 @ [open_call (os_path_join workspace ''sk_model.pkl'') ''rb''])
      (Call (Lib ''pickle.load'') [file_obj (os_path_join workspace ''sk_model.pkl'') ''rb''])
      (run_files w21) = Raises x21"
  then show "cell21_loop lib21 config ((workspace, model # rest) # pairs) pipelines w21 =
        Inl (Raised_by_library
               (Call (Lib ''pickle.load'')
                  [file_obj (os_path_join workspace ''sk_model.pkl'') ''rb'']) x21)"
    by (simp add: index0_def Let_def ext_run_def lib_call_def del: set_simps)
next
  assume "run_sklearn lib3 creatable i fs3 = Inl (Raised_by_statement e3)"
  from run_sklearn_statement [OF this]
  show "e3 = AssertionError \<and>
        (case info_data i of None \<Rightarrow> True | Some (x, y) \<Rightarrow> x \<noteq> NdArray \<or> y \<noteq> NdArray) \<or>
      e3 = NotImplementedError \<and> info_data i = Some (NdArray, NdArray) \<and>
        (\<exists>model. info_meta i ''model'' = Some model \<and>
           model \<noteq> ''decision_tree'' \<and> model \<noteq> ''random_forest'')" .
next
  assume n: "\<forall>log c f x. lib3 log c f \<noteq> Raises x"
  show "run_sklearn lib3 creatable i fs3 = Inl (Raised_by_statement AssertionError) \<longleftrightarrow>
         (case info_data i of None \<Rightarrow> True | Some (x, y) \<Rightarrow> x \<noteq> NdArray \<or> y \<noteq> NdArray)"
    using run_sklearn_statement [of lib3 creatable i fs3 AssertionError]
      run_sklearn_checks(1) [OF n, of i creatable fs3]
    by auto
  show "run_sklearn lib3 creatable i fs3 = Inl (Raised_by_statement NotImplementedError) \<longleftrightarrow>
         info_data i = Some (NdArray, NdArray) \<and>
         (\<exists>model. info_meta i ''model'' = Some model \<and>
            model \<noteq> ''decision_tree'' \<and> model \<noteq> ''random_forest'')"
    using run_sklearn_statement [of lib3 creatable i fs3 NotImplementedError]
      run_sklearn_checks(2) [OF n, of i _ creatable fs3]
    by auto
qed

text \<open>
  The claim as stated fails: for a task whose model is \<open>linear\<close> the script raises
  \<open>NotImplementedError\<close> by its own \<open>raise\<close>, and without data its own assertion
  fails, with a library that raises nothing.
\<close>

theorem run_sklearn_raises:
  "run_sklearn idle_library always linear_task sample_iris_fs =
     Inl (Raised_by_statement NotImplementedError) \<and>
   run_sklearn idle_library always (linear_task\<lparr>info_data := None\<rparr>) sample_iris_fs =
     Inl (Raised_by_statement AssertionError)"
  by (simp add: run_sklearn_def linear_task_def idle_library_def lib_call_def)

lemma first_calls:
  "0 < length titanic_cells_1_to_8 \<and>
   titanic_cells_1_to_8 ! 0 = Call (Lib ''cflearn.misc.toolkit.seed_everything'') [PInt 123] \<and>
   0 < length iris_log19 \<and>
   iris_log19 ! 0 = Call (Lib ''cflearn.misc.toolkit.seed_everything'') [PInt 123]"
  by code_simp

theorem authored_errors_witness:
  "titanic refusing_library sample_titanic_fs sample_classes =
     Inl (Raised_by_library (Call (Lib ''cflearn.misc.toolkit.seed_everything'') [PInt 123])
            ''RuntimeError'') \<and>
   iris refusing_library sample_iris_fs sample_workspaces sample_workspace_keys =
     Inl (Raised_by_library (Call (Lib ''cflearn.misc.toolkit.seed_everything'') [PInt 123])
            ''RuntimeError'') \<and>
   titanic idle_library Map.empty sample_classes = Inl (Raised_by_builtin FileNotFoundError) \<and>
   cell21_loop sample_library iris_config [(''w'', [''decision_tree'', ''0''])] iris_results
     \<lparr>run_files = [''w/sk_model.pkl'' \<mapsto> ''text''], run_log = []\<rparr> =
     Inl (Raised_by_library (Call (Lib ''pickle.load'') [file_obj ''w/sk_model.pkl'' ''rb''])
            ''UnpicklingError'') \<and>
   run_sklearn idle_library always linear_task sample_iris_fs =
     Inl (Raised_by_statement NotImplementedError) \<and>
   run_sklearn idle_library always linear_task sample_iris_fs \<noteq>
     Inl (Raised_by_statement AssertionError)"
proof -
  let ?seed = "Call (Lib ''cflearn.misc.toolkit.seed_everything'') [PInt 123]"
  note ae = authored_errors [where lib = refusing_library and fs = sample_titanic_fs
      and predicted = sample_classes and ?fs2.0 = sample_iris_fs
      and workspaces = sample_workspaces and workspace_keys = sample_workspace_keys
      and k = 0 and x = "''RuntimeError''"
      and w = "\<lparr>run_files = sample_titanic_fs, run_log = []\<rparr>"
      and ?w2.0 = "\<lparr>run_files = sample_iris_fs, run_log = []\<rparr>"
      and ?lib9.0 = idle_library and ?fs9.0 = Map.empty
      and ?w9.0 = "\<lparr>run_files = Map.empty, run_log = titanic_cells_1_to_8\<rparr>"
      and b = FileNotFoundError
      and ?lib21.0 = sample_library and workspace = "''w''" and model = "''decision_tree''"
      and rest = "[''0'']" and pairs = "[]" and config = iris_config and pipelines = iris_results
      and ?w21.0 = "\<lparr>run_files = [''w/sk_model.pkl'' \<mapsto> ''text''], run_log = []\<rparr>"
      and content = "''text''" and ?x21.0 = "''UnpicklingError''"
      and ?lib3.0 = idle_library and creatable = always and i = linear_task
      and ?fs3.0 = sample_iris_fs and ?e3.0 = NotImplementedError]
  have r: "refusing_library log ?seed f = Raises ''RuntimeError''" for log f
    by (simp add: refusing_library_def)
  have 1: "titanic refusing_library sample_titanic_fs sample_classes =
             Inl (Raised_by_library ?seed ''RuntimeError'')"
    using ae [THEN conjunct2, THEN conjunct2, THEN conjunct2, THEN conjunct2, THEN conjunct1]
      first_calls r
    by simp
  have 2: "iris refusing_library sample_iris_fs sample_workspaces sample_workspace_keys =
             Inl (Raised_by_library ?seed ''RuntimeError'')"
    using ae [THEN conjunct2, THEN conjunct2, THEN conjunct2, THEN conjunct2, THEN conjunct2,
        THEN conjunct1]
      first_calls r
    by simp
  have 3: "titanic idle_library Map.empty sample_classes = Inl (Raised_by_builtin FileNotFoundError)"
    using ae [THEN conjunct2, THEN conjunct2, THEN conjunct2, THEN conjunct2, THEN conjunct2,
        THEN conjunct2, THEN conjunct1]
    by (simp add: run_calls_idle cell9_def open_r_def)
  have j: "os_path_join ''w'' ''sk_model.pkl'' = ''w/sk_model.pkl''"
    by code_simp
  have "case sample_library [open_call ''w/sk_model.pkl'' ''rb'']
               (Call (Lib ''pickle.load'') [file_obj ''w/sk_model.pkl'' ''rb''])
               [''w/sk_model.pkl'' \<mapsto> ''text''] of
          Raises x \<Rightarrow> x = ''UnpicklingError'' | Returns f \<Rightarrow> False"
    by code_simp
  then have u: "sample_library [open_call ''w/sk_model.pkl'' ''rb'']
             (Call (Lib ''pickle.load'') [file_obj ''w/sk_model.pkl'' ''rb''])
             [''w/sk_model.pkl'' \<mapsto> ''text''] = Raises ''UnpicklingError''"
    by (cases "sample_library [open_call ''w/sk_model.pkl'' ''rb'']
               (Call (Lib ''pickle.load'') [file_obj ''w/sk_model.pkl'' ''rb''])
               [''w/sk_model.pkl'' \<mapsto> ''text'']") simp_all
  have 4: "cell21_loop sample_library iris_config [(''w'', [''decision_tree'', ''0''])] iris_results
     \<lparr>run_files = [''w/sk_model.pkl'' \<mapsto> ''text''], run_log = []\<rparr> =
     Inl (Raised_by_library (Call (Lib ''pickle.load'') [file_obj ''w/sk_model.pkl'' ''rb''])
            ''UnpicklingError'')"
    using ae [THEN conjunct2, THEN conjunct2, THEN conjunct2, THEN conjunct2, THEN conjunct2,
        THEN conjunct2, THEN conjunct2, THEN conjunct1] u
    unfolding j by simp
  have n: "\<forall>log c f x. idle_library log c f \<noteq> Raises x"
    by (simp add: idle_library_def)
  have 5: "run_sklearn idle_library always linear_task sample_iris_fs =
     Inl (Raised_by_statement NotImplementedError)"
    using ae [THEN conjunct2, THEN conjunct2, THEN conjunct2, THEN conjunct2, THEN conjunct2,
        THEN conjunct2, THEN conjunct2, THEN conjunct2, THEN conjunct2, THEN mp, OF n,
        THEN conjunct2]
    by (simp add: linear_task_def)
  have 6: "run_sklearn idle_library always linear_task sample_iris_fs \<noteq>
     Inl (Raised_by_statement AssertionError)"
    using ae [THEN conjunct2, THEN conjunct2, THEN conjunct2, THEN conjunct2, THEN conjunct2,
        THEN conjunct2, THEN conjunct2, THEN conjunct2, THEN conjunct2, THEN mp, OF n,
        THEN conjunct1]
    by (simp add: linear_task_def)
  from 1 2 3 4 5 6 show ?thesis by (intro conjI)
qed

section \<open>The container image\<close>

text \<open>
  Claim C8, amended. The image is derived from \<open>nvcr.io/nvidia/pytorch:21.07-py3\<close>.
  Besides copying the repository, the build sets the working directory to
  \<open>/usr/home\<close>, refreshes the apt package lists with \<open>apt-get update\<close>, and after
  that every step is a package install: \<open>htop\<close>, \<open>git\<close>, \<open>ssh\<close> and \<open>tmux\<close> with
  \<open>apt-get\<close>, and \<open>pip\<close>, the repository itself and \<open>gpustat\<close> with \<open>pip\<close>.
\<close>

theorem dockerfile_steps:
  "base_image (build dockerfile) = ''nvcr.io/nvidia/pytorch:21.07-py3'' \<and>
   workdir (build dockerfile) = ''/usr/home'' \<and>
   copied (build dockerfile) = [(''.'', ''.'')] \<and>
   apt_lists_refreshed (build dockerfile) \<and>
   other_steps dockerfile =
     WORKDIR ''/usr/home'' # RUN [''apt-get'', ''update''] # drop 4 dockerfile \<and>
   list_all is_package_install (drop 4 dockerfile) \<and>
   apt_packages (build dockerfile) = [''htop'', ''git'', ''ssh'', ''tmux''] \<and>
   pip_packages (build dockerfile) = [''pip'', ''.'', ''gpustat'']"
  by code_simp

text \<open>
  The claim as stated fails: \<open>RUN apt-get update\<close> is a build step other than the copy,
  and it installs no package.
\<close>

theorem apt_get_update_is_no_install:
  "RUN [''apt-get'', ''update''] \<in> set (other_steps dockerfile) \<and>
   \<not> is_package_install (RUN [''apt-get'', ''update''])"
  by code_simp

end
